theory Spec2Isabelle
  imports Main "HOL-Library.Word"
begin

unbundle bit_operations_syntax

section \<open>Data model of shadowsocks.c\<close>

text \<open>
  The relay engine of \<^verbatim>\<open>shadowsocks.c\<close> is event driven: every function below is one
  handler or helper of the C file, written as a function from the connection before the
  call to the connection after it. Calls of \<^verbatim>\<open>log_error\<close>, \<^verbatim>\<open>redsocks_log_error\<close>,
  \<^verbatim>\<open>redsocks_log_errno\<close> and \<^verbatim>\<open>redsocks_touch_client\<close> write a log line or refresh a
  time stamp and touch none of the fields modelled here; they are left out.
\<close>

type_synonym byte = "8 word"

subsection \<open>libevent queues\<close>

text \<open>
  An \<^verbatim>\<open>evbuffer\<close> is a linked list of chains; each chain holds one contiguous run of
  unread bytes (its \<^verbatim>\<open>off\<close> bytes). The head of the list is \<^verbatim>\<open>buf->first\<close>.
\<close>

type_synonym evbuffer = "byte list list"

definition evbuffer_contents :: "evbuffer \<Rightarrow> byte list" where
  "evbuffer_contents buf = concat buf"

definition evbuffer_get_length :: "evbuffer \<Rightarrow> nat" where
  "evbuffer_get_length buf = length (concat buf)"

definition evbuffer_get_contiguous_space :: "evbuffer \<Rightarrow> nat" where
  "evbuffer_get_contiguous_space buf = (case buf of [] \<Rightarrow> 0 | chain # _ \<Rightarrow> length chain)"

text \<open>
  \<^verbatim>\<open>evbuffer_pullup(buf, size)\<close> returns NULL when the queue holds fewer than \<^verbatim>\<open>size\<close>
  bytes, a pointer into the first chain when that chain already holds \<^verbatim>\<open>size\<close> bytes, and
  otherwise first copies the leading \<^verbatim>\<open>size\<close> bytes into one chain. The pointer is
  modelled by the \<^verbatim>\<open>size\<close> bytes it points at.
\<close>

definition evbuffer_pullup :: "evbuffer \<Rightarrow> nat \<Rightarrow> byte list option \<times> evbuffer" where
  "evbuffer_pullup buf n =
     (if evbuffer_get_length buf < n then (None, buf)
      else if n \<le> evbuffer_get_contiguous_space buf then (Some (take n (concat buf)), buf)
      else (Some (take n (concat buf)), [take n (concat buf), drop n (concat buf)]))"

text \<open>
  \<^verbatim>\<open>evbuffer_drain(buf, len)\<close> frees every leading chain whose bytes are all consumed
  (the loop \<^verbatim>\<open>remaining >= chain->off\<close>) and advances into the first chain that is not.
\<close>

fun evbuffer_drain :: "evbuffer \<Rightarrow> nat \<Rightarrow> evbuffer" where
  "evbuffer_drain [] n = []"
| "evbuffer_drain (chain # rest) n =
     (if n < length chain then drop n chain # rest
      else evbuffer_drain rest (n - length chain))"

text \<open>
  \<^verbatim>\<open>evbuffer_reserve_space\<close> followed by \<^verbatim>\<open>evbuffer_commit_space\<close> with one vector: the
  reservation opens room at the tail of the queue and the commit makes the first
  \<^verbatim>\<open>iov_len\<close> bytes written there readable. The model opens a new chain for them
  (libevent may extend the last chain instead; the program reads an output queue only
  through its length and contents). The transform is trusted to write no more than
  the reserved size.
\<close>

definition evbuffer_commit_space :: "evbuffer \<Rightarrow> byte list \<Rightarrow> evbuffer" where
  "evbuffer_commit_space buf iov = buf @ [iov]"

subsection \<open>Buffer events\<close>

definition EV_READ :: "16 word" where
  "EV_READ = 0x02"

definition EV_WRITE :: "16 word" where
  "EV_WRITE = 0x04"

datatype callback =
    cb_none
  | cb_redsocks_relay
  | cb_ss_relay_connected
  | cb_ss_client_readcb
  | cb_ss_client_writecb
  | cb_ss_relay_readcb
  | cb_ss_relay_writecb
  | cb_redsocks_event_error

record bufferevent =
  bufferevent_get_input :: evbuffer
  bufferevent_get_output :: evbuffer
  enabled :: "16 word"
  wm_write_high :: nat
  readcb :: callback
  writecb :: callback
  errorcb :: callback
  timeout_read :: "nat option"
  timeout_write :: "nat option"

text \<open>
  libevent updates the \<^verbatim>\<open>enabled\<close> mask before it asks the backend, so the mask changes
  whether or not the call reports \<^verbatim>\<open>-1\<close>; the program only logs that return value.
\<close>

definition bufferevent_enable :: "bufferevent \<Rightarrow> 16 word \<Rightarrow> bufferevent" where
  "bufferevent_enable bev event = bev\<lparr>enabled := enabled bev OR event\<rparr>"

definition bufferevent_disable :: "bufferevent \<Rightarrow> 16 word \<Rightarrow> bufferevent" where
  "bufferevent_disable bev event = bev\<lparr>enabled := enabled bev AND NOT event\<rparr>"

definition bufferevent_set_timeouts ::
  "bufferevent \<Rightarrow> nat option \<Rightarrow> nat option \<Rightarrow> bufferevent" where
  "bufferevent_set_timeouts bev tr tw = bev\<lparr>timeout_read := tr, timeout_write := tw\<rparr>"

definition bufferevent_setcb ::
  "bufferevent \<Rightarrow> callback \<Rightarrow> callback \<Rightarrow> callback \<Rightarrow> bufferevent" where
  "bufferevent_setcb bev rcb wcb ecb = bev\<lparr>readcb := rcb, writecb := wcb, errorcb := ecb\<rparr>"

text \<open>
  Modelled from the spec: \<^verbatim>\<open>get_write_hwm\<close> (in \<^verbatim>\<open>utils.c\<close>) is the shared
  write-high-watermark accessor; it reads the write high-water mark configured on the
  stream.
\<close>

definition get_write_hwm :: "bufferevent \<Rightarrow> nat" where
  "get_write_hwm bev = wm_write_high bev"

subsection \<open>The connection\<close>

datatype ss_state = ss_new | ss_connected | ss_MAX

datatype side = Client | Relay

datatype ctx_id = E_CTX | D_CTX

record 'ctx ss_client =
  e_ctx :: 'ctx
  d_ctx :: 'ctx
  e_ctx_init :: "16 word"
  d_ctx_init :: "16 word"

text \<open>
  \<^verbatim>\<open>redsocks_client\<close> with the \<^verbatim>\<open>ss_client\<close> payload that follows it in memory
  (\<^verbatim>\<open>(void*)(client + 1)\<close>). \<^verbatim>\<open>relay\<close> is a pointer that is NULL until the connect helper
  has returned a stream. Two fields are bookkeeping of the model: \<^verbatim>\<open>enc_ctx_free_calls\<close>
  records every call of \<^verbatim>\<open>enc_ctx_free\<close> in order, and \<^verbatim>\<open>dropped\<close> is set once
  \<^verbatim>\<open>redsocks_drop_client\<close> has released the connection.
\<close>

record 'ctx redsocks_client =
  client :: bufferevent
  relay :: "bufferevent option"
  state :: ss_state
  relay_connected :: bool
  client_evshut :: "16 word"
  relay_evshut :: "16 word"
  destaddr_sin_addr :: "32 word"
  destaddr_sin_port :: "16 word"
  sclient :: "'ctx ss_client"
  enc_ctx_free_calls :: "ctx_id list"
  dropped :: bool

subsection \<open>Collaborators outside shadowsocks.c\<close>

text \<open>
  The cipher (\<^verbatim>\<open>encrypt.c\<close>), the connect helper and the shutdown helper are not part of
  \<^verbatim>\<open>shadowsocks.c\<close>; they are parameters. \<^verbatim>\<open>ss_encrypt\<close> and \<^verbatim>\<open>ss_decrypt\<close> advance the
  context and return the produced bytes, or \<^verbatim>\<open>None\<close> where the C function returns 0.
  \<^verbatim>\<open>enc_ctx_init\<close> returns its status (nonzero is failure) and the context it wrote.
  \<^verbatim>\<open>evbuffer_reserve_space\<close> tells whether the reservation returned 1.
  \<^verbatim>\<open>start_relay_status\<close> is the status \<^verbatim>\<open>redsocks_start_relay\<close> ends with.
  \<^verbatim>\<open>process_shutdown_on_write\<close> is the helper \<^verbatim>\<open>process_shutdown_on_write_\<close>, called
  with the connection, \<^verbatim>\<open>from\<close> and \<^verbatim>\<open>to\<close>; it returns its status and the connection as
  it left it. \<^verbatim>\<open>red_connect_relay_tfo\<close> receives the payload and returns the relay stream (or NULL)
  and the length it wrote back through \<^verbatim>\<open>&sz\<close>.
\<close>

record 'ctx env =
  ss_calc_buffer_size :: "'ctx \<Rightarrow> nat \<Rightarrow> nat"
  ss_encrypt :: "'ctx \<Rightarrow> byte list \<Rightarrow> 'ctx \<times> byte list option"
  ss_decrypt :: "'ctx \<Rightarrow> byte list \<Rightarrow> 'ctx \<times> byte list option"
  enc_ctx_init :: "int \<Rightarrow> int \<times> 'ctx"
  evbuffer_reserve_space :: "evbuffer \<Rightarrow> nat \<Rightarrow> bool"
  red_is_socket_connected_ok :: "bufferevent \<Rightarrow> bool"
  start_relay_status :: int
  process_shutdown_on_write ::
    "'ctx redsocks_client \<Rightarrow> side \<Rightarrow> side \<Rightarrow> int \<times> 'ctx redsocks_client"
  red_connect_relay_tfo :: "byte list \<Rightarrow> bufferevent option \<times> nat"

section \<open>Credentials and subsystem initialisation\<close>

text \<open>A C string pointer is \<^verbatim>\<open>None\<close> when NULL, else the bytes before the terminator.\<close>

definition strlen :: "string \<Rightarrow> nat" where
  "strlen s = length s"

definition ss_is_valid_cred :: "string option \<Rightarrow> string option \<Rightarrow> int" where
  "ss_is_valid_cred method password =
     (case method of None \<Rightarrow> 0 | Some m \<Rightarrow>
      case password of None \<Rightarrow> 0 | Some p \<Rightarrow>
        if strlen m > 255 then 0
        else if strlen p > 255 then 0
        else 1)"

record redsocks_config =
  login :: "string option"
  password :: "string option"

record 'info ss_instance =
  ss_method :: int
  info :: 'info

text \<open>
  \<^verbatim>\<open>enc_init(&ss->info, password, login)\<close> belongs to \<^verbatim>\<open>encrypt.c\<close>; it is the parameter
  \<^verbatim>\<open>enc_init\<close>, returning the method index (\<^verbatim>\<open>-1\<close> on failure) and the key material.
  The \<^verbatim>\<open>||\<close> of the C condition does not call it when the check has failed.
\<close>

definition ss_instance_init ::
  "('info \<Rightarrow> string option \<Rightarrow> string option \<Rightarrow> int \<times> 'info) \<Rightarrow> redsocks_config \<Rightarrow>
   'info ss_instance \<Rightarrow> int \<times> 'info ss_instance" where
  "ss_instance_init enc_init config ss =
     (let valid_cred = ss_is_valid_cred (login config) (password config) in
      if valid_cred = 0 then (- 1, ss)
      else case enc_init (info ss) (password config) (login config) of
        (m, i) \<Rightarrow>
          (if m = - 1 then (- 1, ss\<lparr>ss_method := m, info := i\<rparr>)
           else (0, ss\<lparr>ss_method := m, info := i\<rparr>)))"

text \<open>
  The credential check in the words of the specification: both strings present, each
  at most 255 bytes, and the method among the recognised cipher names.
\<close>

definition cred_check_spec :: "string list \<Rightarrow> string option \<Rightarrow> string option \<Rightarrow> bool" where
  "cred_check_spec recognised m p =
     (case (m, p) of
        (Some ms, Some ps) \<Rightarrow> length ms \<le> 255 \<and> length ps \<le> 255 \<and> ms \<in> set recognised
      | _ \<Rightarrow> False)"

section \<open>Per-connection set-up and teardown\<close>

definition ss_client_init :: "'ctx redsocks_client \<Rightarrow> 'ctx redsocks_client" where
  "ss_client_init c = c\<lparr>state := ss_new\<rparr>"

text \<open>
  \<^verbatim>\<open>enc_ctx_free\<close> belongs to \<^verbatim>\<open>encrypt.c\<close> and releases the cipher state of one context;
  the model records the call, naming the context it was given.
\<close>

definition enc_ctx_free :: "ctx_id \<Rightarrow> 'ctx redsocks_client \<Rightarrow> 'ctx redsocks_client" where
  "enc_ctx_free i c = c\<lparr>enc_ctx_free_calls := enc_ctx_free_calls c @ [i]\<rparr>"

definition ss_client_fini :: "'ctx redsocks_client \<Rightarrow> 'ctx redsocks_client" where
  "ss_client_fini c =
     (let c1 = (if e_ctx_init (sclient c) \<noteq> 0
                then (enc_ctx_free E_CTX c)\<lparr>sclient := (sclient c)\<lparr>e_ctx_init := 0\<rparr>\<rparr>
                else c)
      in if d_ctx_init (sclient c1) \<noteq> 0
         then (enc_ctx_free D_CTX c1)\<lparr>sclient := (sclient c1)\<lparr>d_ctx_init := 0\<rparr>\<rparr>
         else c1)"

text \<open>
  Modelled from the spec: \<^verbatim>\<open>redsocks_drop_client\<close> (in \<^verbatim>\<open>redsocks.c\<close>) is the generic drop
  operation that performs final cleanup, invoking this subsystem's teardown hook, and
  releases the connection.
\<close>

definition redsocks_drop_client :: "'ctx redsocks_client \<Rightarrow> 'ctx redsocks_client" where
  "redsocks_drop_client c = (ss_client_fini c)\<lparr>dropped := True\<rparr>"

text \<open>
  Modelled from the spec: \<^verbatim>\<open>redsocks_start_relay\<close> (in \<^verbatim>\<open>redsocks.c\<close>) wires the
  framework's steady-state event handlers; the caller's comment adds that it drops the
  client on failure and reports the failure with a nonzero value.
\<close>

definition redsocks_start_relay ::
  "'ctx env \<Rightarrow> 'ctx redsocks_client \<Rightarrow> int \<times> 'ctx redsocks_client" where
  "redsocks_start_relay env c =
     (let c1 = c\<lparr>client := bufferevent_setcb (client c)
                    cb_redsocks_relay cb_redsocks_relay cb_redsocks_event_error,
                 relay := map_option (\<lambda>r. bufferevent_setcb r
                    cb_redsocks_relay cb_redsocks_relay cb_redsocks_event_error) (relay c)\<rparr>
      in if start_relay_status env = 0 then (0, c1)
         else (start_relay_status env, redsocks_drop_client c1))"

section \<open>The stream transform pipeline\<close>

definition encrypt_mem ::
  "'ctx env \<Rightarrow> 'ctx ss_client \<Rightarrow> byte list option \<Rightarrow> nat \<Rightarrow> evbuffer \<Rightarrow> int \<Rightarrow>
   'ctx ss_client \<times> evbuffer" where
  "encrypt_mem env sc data len buf_out decrypt =
     (case data of
        None \<Rightarrow> (sc, buf_out)
      | Some d \<Rightarrow>
          if len = 0 then (sc, buf_out)
          else
            let required = (if decrypt \<noteq> 0 then ss_calc_buffer_size env (d_ctx sc) len
                            else ss_calc_buffer_size env (e_ctx sc) len)
            in if required \<noteq> 0 \<and> evbuffer_reserve_space env buf_out required
               then
                 if decrypt \<noteq> 0
                 then (case ss_decrypt env (d_ctx sc) (take len d) of
                         (ctx, rc) \<Rightarrow>
                           (sc\<lparr>d_ctx := ctx\<rparr>,
                            evbuffer_commit_space buf_out
                              (case rc of None \<Rightarrow> [] | Some iov \<Rightarrow> iov)))
                 else (case ss_encrypt env (e_ctx sc) (take len d) of
                         (ctx, rc) \<Rightarrow>
                           (sc\<lparr>e_ctx := ctx\<rparr>,
                            evbuffer_commit_space buf_out
                              (case rc of None \<Rightarrow> [] | Some iov \<Rightarrow> iov)))
               else (sc, buf_out))"

definition encrypt_buffer ::
  "'ctx env \<Rightarrow> 'ctx ss_client \<Rightarrow> bufferevent \<Rightarrow> bufferevent \<Rightarrow>
   'ctx ss_client \<times> bufferevent \<times> bufferevent" where
  "encrypt_buffer env sc from to =
     (let buf_in = bufferevent_get_input from;
          input_size = evbuffer_get_contiguous_space buf_in
      in if input_size = 0 then (sc, from, to)
         else case evbuffer_pullup buf_in input_size of
           (inp, buf_in1) \<Rightarrow>
             (case encrypt_mem env sc inp input_size (bufferevent_get_output to) 0 of
                (sc1, buf_out) \<Rightarrow>
                  (sc1, from\<lparr>bufferevent_get_input := evbuffer_drain buf_in1 input_size\<rparr>,
                   to\<lparr>bufferevent_get_output := buf_out\<rparr>)))"

definition decrypt_buffer ::
  "'ctx env \<Rightarrow> 'ctx ss_client \<Rightarrow> bufferevent \<Rightarrow> bufferevent \<Rightarrow>
   'ctx ss_client \<times> bufferevent \<times> bufferevent" where
  "decrypt_buffer env sc from to =
     (let buf_in = bufferevent_get_input from;
          input_size = evbuffer_get_contiguous_space buf_in
      in if input_size = 0 then (sc, from, to)
         else case evbuffer_pullup buf_in input_size of
           (inp, buf_in1) \<Rightarrow>
             (case encrypt_mem env sc inp input_size (bufferevent_get_output to) 1 of
                (sc1, buf_out) \<Rightarrow>
                  (sc1, from\<lparr>bufferevent_get_input := evbuffer_drain buf_in1 input_size\<rparr>,
                   to\<lparr>bufferevent_get_output := buf_out\<rparr>)))"

section \<open>The steady-state event handlers\<close>

text \<open>
  A handler returns \<^verbatim>\<open>None\<close> when the process aborts: an \<^verbatim>\<open>assert\<close> fails or the NULL
  relay pointer is dereferenced. The stream the event fired on is \<^verbatim>\<open>buffev\<close>; as the
  connection owns exactly two streams it is named by its side. \<^verbatim>\<open>input_size\<close> and
  \<^verbatim>\<open>output_size\<close> are read at the top of the C functions, before the shutdown helper runs.
\<close>

definition ss_client_writecb ::
  "'ctx env \<Rightarrow> side \<Rightarrow> 'ctx redsocks_client \<Rightarrow> 'ctx redsocks_client option" where
  "ss_client_writecb env buffev c =
     (case relay c of
        None \<Rightarrow> None
      | Some from \<Rightarrow>
          let to = client c;
              input_size = evbuffer_get_contiguous_space (bufferevent_get_input from);
              output_size = evbuffer_get_length (bufferevent_get_output to)
          in if buffev \<noteq> Client then None
             else case process_shutdown_on_write env c Relay Client of
               (rc, c1) \<Rightarrow>
                 if rc \<noteq> 0 then Some c1
                 else if state c1 = ss_connected
                 then (case relay c1 of
                         None \<Rightarrow> None
                       | Some from1 \<Rightarrow>
                           if output_size < get_write_hwm (client c1)
                           then (case (if input_size \<noteq> 0
                                       then decrypt_buffer env (sclient c1) from1 (client c1)
                                       else (sclient c1, from1, client c1)) of
                                   (sc2, from2, to2) \<Rightarrow>
                                     Some (c1\<lparr>sclient := sc2, client := to2,
                                       relay := Some (if relay_evshut c1 AND EV_READ = 0
                                                      then bufferevent_enable from2 EV_READ
                                                      else from2)\<rparr>))
                           else Some c1)
                 else Some (redsocks_drop_client c1))"

definition ss_client_readcb ::
  "'ctx env \<Rightarrow> side \<Rightarrow> 'ctx redsocks_client \<Rightarrow> 'ctx redsocks_client option" where
  "ss_client_readcb env buffev c =
     (case relay c of
        None \<Rightarrow> None
      | Some to \<Rightarrow>
          let from = client c;
              output_size = evbuffer_get_length (bufferevent_get_output to)
          in if buffev \<noteq> Client then None
             else if state c = ss_connected
             then (if output_size < get_write_hwm to
                   then (case encrypt_buffer env (sclient c) from to of
                           (sc1, from1, to1) \<Rightarrow>
                             Some (c\<lparr>sclient := sc1,
                                      client := bufferevent_enable from1 EV_READ,
                                      relay := Some to1\<rparr>))
                   else Some (c\<lparr>client := bufferevent_disable from EV_READ\<rparr>))
             else Some (redsocks_drop_client c))"

definition ss_relay_writecb ::
  "'ctx env \<Rightarrow> side \<Rightarrow> 'ctx redsocks_client \<Rightarrow> 'ctx redsocks_client option" where
  "ss_relay_writecb env buffev c =
     (case relay c of
        None \<Rightarrow> None
      | Some to \<Rightarrow>
          let from = client c;
              input_size = evbuffer_get_contiguous_space (bufferevent_get_input from);
              output_size = evbuffer_get_length (bufferevent_get_output to)
          in if buffev \<noteq> Relay then None
             else case process_shutdown_on_write env c Client Relay of
               (rc, c1) \<Rightarrow>
                 if rc \<noteq> 0 then Some c1
                 else if state c1 = ss_connected
                 then (case relay c1 of
                         None \<Rightarrow> None
                       | Some to1 \<Rightarrow>
                           if output_size < get_write_hwm to1
                           then (case (if input_size \<noteq> 0
                                       then encrypt_buffer env (sclient c1) (client c1) to1
                                       else (sclient c1, client c1, to1)) of
                                   (sc2, from2, to2) \<Rightarrow>
                                     Some (c1\<lparr>sclient := sc2,
                                       client := (if client_evshut c1 AND EV_READ = 0
                                                  then bufferevent_enable from2 EV_READ
                                                  else from2),
                                       relay := Some to2\<rparr>))
                           else Some c1)
                 else Some (redsocks_drop_client c1))"

definition ss_relay_readcb ::
  "'ctx env \<Rightarrow> side \<Rightarrow> 'ctx redsocks_client \<Rightarrow> 'ctx redsocks_client option" where
  "ss_relay_readcb env buffev c =
     (case relay c of
        None \<Rightarrow> None
      | Some from \<Rightarrow>
          let to = client c;
              input_size = evbuffer_get_contiguous_space (bufferevent_get_input from);
              output_size = evbuffer_get_length (bufferevent_get_output to)
          in if buffev \<noteq> Relay then None
             else if state c = ss_connected
             then (if output_size < get_write_hwm to
                   then (case (if input_size \<noteq> 0
                               then decrypt_buffer env (sclient c) from to
                               else (sclient c, from, to)) of
                           (sc1, from1, to1) \<Rightarrow>
                             Some (c\<lparr>sclient := sc1, client := to1,
                                      relay := Some (bufferevent_enable from1 EV_READ)\<rparr>))
                   else Some (c\<lparr>relay := Some (bufferevent_disable from EV_READ)\<rparr>))
             else Some (redsocks_drop_client c))"

section \<open>Relay connect and the relay-connected event\<close>

definition ss_relay_connected ::
  "'ctx env \<Rightarrow> side \<Rightarrow> 'ctx redsocks_client \<Rightarrow> 'ctx redsocks_client option" where
  "ss_relay_connected env buffev c =
     (case relay c of
        None \<Rightarrow> None
      | Some r \<Rightarrow>
          if buffev \<noteq> Relay then None
          else if state c \<noteq> ss_new then None
          else if \<not> red_is_socket_connected_ok env r then Some (redsocks_drop_client c)
          else
            let c1 = c\<lparr>relay_connected := True, state := ss_connected\<rparr>;
                c2 = c1\<lparr>relay := Some (bufferevent_set_timeouts r None None)\<rparr>
            in case redsocks_start_relay env c2 of
              (rc, c3) \<Rightarrow>
                if rc \<noteq> 0 then Some c3
                else
                  let c4 = c3\<lparr>client := bufferevent_setcb (client c3)
                                cb_ss_client_readcb cb_ss_client_writecb cb_redsocks_event_error\<rparr>;
                      c5 = c4\<lparr>relay := map_option (\<lambda>b. bufferevent_setcb b
                                cb_ss_relay_readcb cb_ss_relay_writecb cb_redsocks_event_error)
                                (relay c4)\<rparr>
                  in if evbuffer_get_length (bufferevent_get_input (client c5)) \<noteq> 0
                     then ss_relay_writecb env Relay c5
                     else Some c5)"

text \<open>
  Modelled from the spec: the handshake header of \<^verbatim>\<open>shadowsocks.h\<close>, laid out as
  \<^verbatim>\<open>[addr_type: 1 byte = IPv4][addr: 4 bytes, network order][port: 2 bytes, network order]\<close>.
  The address and the port are kept as the numbers whose network-order bytes the
  socket address stores; \<^verbatim>\<open>ss_addrtype_ipv4\<close> is the protocol's tag 1.
\<close>

definition ss_addrtype_ipv4 :: byte where
  "ss_addrtype_ipv4 = 1"

definition ss_header_ipv4 :: "32 word \<Rightarrow> 16 word \<Rightarrow> byte list" where
  "ss_header_ipv4 addr port =
     [ss_addrtype_ipv4,
      ucast (drop_bit 24 addr), ucast (drop_bit 16 addr), ucast (drop_bit 8 addr), ucast addr,
      ucast (drop_bit 8 port), ucast port]"

definition ss_connect_relay ::
  "'ctx env \<Rightarrow> 'ctx redsocks_client \<Rightarrow> int \<times> 'ctx redsocks_client" where
  "ss_connect_relay env c =
     (case enc_ctx_init env 1 of
        (rc_e, e) \<Rightarrow>
          let c1 = c\<lparr>sclient := (sclient c)\<lparr>e_ctx := e\<rparr>\<rparr>
          in if rc_e \<noteq> 0 then (- 1, redsocks_drop_client c1)
             else
               let c2 = c1\<lparr>sclient := (sclient c1)\<lparr>e_ctx_init := 1\<rparr>\<rparr>
               in case enc_ctx_init env 0 of
                 (rc_d, d) \<Rightarrow>
                   let c3 = c2\<lparr>sclient := (sclient c2)\<lparr>d_ctx := d\<rparr>\<rparr>
                   in if rc_d \<noteq> 0 then (- 1, redsocks_drop_client c3)
                      else
                        let c4 = c3\<lparr>sclient := (sclient c3)\<lparr>d_ctx_init := 1\<rparr>\<rparr>;
                            header = ss_header_ipv4 (destaddr_sin_addr c4) (destaddr_sin_port c4)
                        in case ss_encrypt env (e_ctx (sclient c4)) header of
                          (e1, enc) \<Rightarrow>
                            let c5 = c4\<lparr>sclient := (sclient c4)\<lparr>e_ctx := e1\<rparr>\<rparr>
                            in (case enc of
                                  None \<Rightarrow> (- 1, redsocks_drop_client c5)
                                | Some buff \<Rightarrow>
                                    let len = length buff
                                    in case red_connect_relay_tfo env buff of
                                      (r, sz) \<Rightarrow>
                                        let c6 = c5\<lparr>relay := r\<rparr>
                                        in if r = None then (- 1, redsocks_drop_client c6)
                                           else if sz \<noteq> 0 \<and> sz \<noteq> len
                                           then (- 1, redsocks_drop_client c6)
                                           else (0, c6)))"

section \<open>The half-close invariant\<close>


section \<open>An example environment and connection\<close>

text \<open>
  A toy stream cipher (XOR with a fixed byte, the context counting the bytes seen), an
  environment in which every collaborator succeeds, and a connected client with five
  buffered bytes in two chains. The examples after the theorems run on them.
\<close>

definition demo_cipher :: "nat \<Rightarrow> byte list \<Rightarrow> nat \<times> byte list option" where
  "demo_cipher ctx d = (ctx + length d, Some (map (\<lambda>b. b XOR 0x2A) d))"

definition demo_bev :: bufferevent where
  "demo_bev =
     \<lparr>bufferevent_get_input = [], bufferevent_get_output = [], enabled = 0,
      wm_write_high = 16, readcb = cb_none, writecb = cb_none, errorcb = cb_none,
      timeout_read = Some 10, timeout_write = Some 10\<rparr>"

definition demo_env :: "nat env" where
  "demo_env =
     \<lparr>ss_calc_buffer_size = (\<lambda>ctx n. n + 16),
      ss_encrypt = demo_cipher,
      ss_decrypt = demo_cipher,
      enc_ctx_init = (\<lambda>enc. (0, 0)),
      evbuffer_reserve_space = (\<lambda>buf n. True),
      red_is_socket_connected_ok = (\<lambda>bev. True),
      start_relay_status = 0,
      process_shutdown_on_write = (\<lambda>c from to. (0, c)),
      red_connect_relay_tfo = (\<lambda>payload. (Some demo_bev, 0))\<rparr>"

definition demo_client :: "nat redsocks_client" where
  "demo_client =
     \<lparr>client = demo_bev\<lparr>bufferevent_get_input := [[1, 2, 3], [4, 5]], enabled := 6\<rparr>,
      relay = Some (demo_bev\<lparr>enabled := 6\<rparr>),
      state = ss_connected,
      relay_connected = True,
      client_evshut = 0,
      relay_evshut = 0,
      destaddr_sin_addr = 0x0A000001,
      destaddr_sin_port = 443,
      sclient = \<lparr>e_ctx = 0, d_ctx = 0, e_ctx_init = 1, d_ctx_init = 1\<rparr>,
      enc_ctx_free_calls = [],
      dropped = False\<rparr>"

definition demo_env_cipher_fails :: "nat env" where
  "demo_env_cipher_fails =
     demo_env\<lparr>ss_encrypt := (\<lambda>ctx d. (ctx, None)), ss_decrypt := (\<lambda>ctx d. (ctx, None))\<rparr>"

definition demo_env_reserve_fails :: "nat env" where
  "demo_env_reserve_fails = demo_env\<lparr>evbuffer_reserve_space := (\<lambda>buf n. False)\<rparr>"

definition demo_client_half_closed :: "nat redsocks_client" where
  "demo_client_half_closed =
     demo_client\<lparr>client := (client demo_client)\<lparr>enabled := EV_WRITE\<rparr>,
                  client_evshut := EV_READ\<rparr>"

definition demo_client_new :: "nat redsocks_client" where
  "demo_client_new =
     demo_client\<lparr>state := ss_new, relay_connected := False,
                  relay := Some (demo_bev\<lparr>enabled := 6, writecb := cb_ss_relay_connected,
                                          errorcb := cb_redsocks_event_error\<rparr>)\<rparr>"

definition demo_env_start_relay_fails :: "nat env" where
  "demo_env_start_relay_fails = demo_env\<lparr>start_relay_status := - 1\<rparr>"

definition demo_client_fresh :: "nat redsocks_client" where
  "demo_client_fresh =
     demo_client\<lparr>state := ss_new, relay_connected := False, relay := None,
                  sclient := \<lparr>e_ctx = 0, d_ctx = 0, e_ctx_init = 0, d_ctx_init = 0\<rparr>\<rparr>"

definition demo_env_partial_send :: "nat env" where
  "demo_env_partial_send = demo_env\<lparr>red_connect_relay_tfo := (\<lambda>payload. (Some demo_bev, 3))\<rparr>"

definition demo_client_congested :: "nat redsocks_client" where
  "demo_client_congested =
     demo_client\<lparr>relay := Some (demo_bev\<lparr>bufferevent_get_output := [[9, 9]], enabled := 6,
                                          wm_write_high := 2\<rparr>)\<rparr>"

section \<open>Facts about the queues\<close>

lemma evbuffer_commit_nothing:
  "evbuffer_contents (evbuffer_commit_space buf []) = evbuffer_contents buf"
  "evbuffer_get_length (evbuffer_commit_space buf []) = evbuffer_get_length buf"
  by (simp_all add: evbuffer_commit_space_def evbuffer_contents_def evbuffer_get_length_def)

lemma evbuffer_drain_contents:
  "evbuffer_contents (evbuffer_drain buf n) = drop n (evbuffer_contents buf)"
  by (induction buf n rule: evbuffer_drain.induct) (auto simp: evbuffer_contents_def)

lemma evbuffer_drain_length:
  "evbuffer_get_length (evbuffer_drain buf n) = evbuffer_get_length buf - n"
  using evbuffer_drain_contents [of buf n]
  by (simp add: evbuffer_contents_def evbuffer_get_length_def)

lemma evbuffer_drain_nothing:
  "evbuffer_drain buf 0 = dropWhile (\<lambda>chain. chain = []) buf"
  by (induction buf) auto

lemma evbuffer_pullup_first_run:
  "evbuffer_pullup (run # rest) (length run) = (Some run, run # rest)"
  by (simp add: evbuffer_pullup_def evbuffer_get_length_def evbuffer_get_contiguous_space_def)

lemma encrypt_buffer_first_run:
  assumes "bufferevent_get_input from = run # rest" and "run \<noteq> []"
  shows "encrypt_buffer env sc from to =
           (fst (encrypt_mem env sc (Some run) (length run) (bufferevent_get_output to) 0),
            from\<lparr>bufferevent_get_input := evbuffer_drain rest 0\<rparr>,
            to\<lparr>bufferevent_get_output :=
                 snd (encrypt_mem env sc (Some run) (length run) (bufferevent_get_output to) 0)\<rparr>)"
  using assms
  by (simp add: encrypt_buffer_def Let_def evbuffer_get_contiguous_space_def
      evbuffer_pullup_first_run split: prod.splits)

lemma decrypt_buffer_first_run:
  assumes "bufferevent_get_input from = run # rest" and "run \<noteq> []"
  shows "decrypt_buffer env sc from to =
           (fst (encrypt_mem env sc (Some run) (length run) (bufferevent_get_output to) 1),
            from\<lparr>bufferevent_get_input := evbuffer_drain rest 0\<rparr>,
            to\<lparr>bufferevent_get_output :=
                 snd (encrypt_mem env sc (Some run) (length run) (bufferevent_get_output to) 1)\<rparr>)"
  using assms
  by (simp add: decrypt_buffer_def Let_def evbuffer_get_contiguous_space_def
      evbuffer_pullup_first_run split: prod.splits)

lemma encrypt_mem_success:
  assumes "len \<noteq> 0"
    and "decrypt \<noteq> 0 \<Longrightarrow> ss_calc_buffer_size env (d_ctx sc) len \<noteq> 0 \<and>
           evbuffer_reserve_space env buf_out (ss_calc_buffer_size env (d_ctx sc) len) \<and>
           ss_decrypt env (d_ctx sc) (take len d) = (ctx, Some iov)"
    and "decrypt = 0 \<Longrightarrow> ss_calc_buffer_size env (e_ctx sc) len \<noteq> 0 \<and>
           evbuffer_reserve_space env buf_out (ss_calc_buffer_size env (e_ctx sc) len) \<and>
           ss_encrypt env (e_ctx sc) (take len d) = (ctx, Some iov)"
  shows "encrypt_mem env sc (Some d) len buf_out decrypt =
           (if decrypt \<noteq> 0 then sc\<lparr>d_ctx := ctx\<rparr> else sc\<lparr>e_ctx := ctx\<rparr>, buf_out @ [iov])"
  using assms by (auto simp: encrypt_mem_def Let_def evbuffer_commit_space_def)

lemma bufferevent_enable_read: "enabled (bufferevent_enable bev EV_READ) AND EV_READ = EV_READ"
  by (simp add: bufferevent_enable_def word_ao_absorbs)

lemma bufferevent_disable_read: "enabled (bufferevent_disable bev EV_READ) AND EV_READ = 0"
  by (simp add: bufferevent_disable_def bit_eq_iff bit_simps)

lemma encrypt_mem_flags:
  "e_ctx_init (fst (encrypt_mem env sc data len buf_out decrypt)) = e_ctx_init sc \<and>
   d_ctx_init (fst (encrypt_mem env sc data len buf_out decrypt)) = d_ctx_init sc"
  by (auto simp: encrypt_mem_def Let_def split: option.splits prod.splits)

lemma encrypt_mem_nothing_enqueued:
  assumes "decrypt = 0 \<or> decrypt = 1"
    and "(if decrypt \<noteq> 0 then ss_calc_buffer_size env (d_ctx sc) len
          else ss_calc_buffer_size env (e_ctx sc) len) = 0 \<or>
         \<not> evbuffer_reserve_space env buf_out
            (if decrypt \<noteq> 0 then ss_calc_buffer_size env (d_ctx sc) len
             else ss_calc_buffer_size env (e_ctx sc) len) \<or>
         (if decrypt \<noteq> 0 then snd (ss_decrypt env (d_ctx sc) (take len d))
          else snd (ss_encrypt env (e_ctx sc) (take len d))) = None"
  shows "evbuffer_contents (snd (encrypt_mem env sc (Some d) len buf_out decrypt)) =
           evbuffer_contents buf_out"
  using assms
  by (auto simp: encrypt_mem_def Let_def evbuffer_commit_nothing split: prod.splits if_splits)

lemma encrypt_buffer_nothing_enqueued:
  assumes "bufferevent_get_input from = run # rest" and "run \<noteq> []"
    and "ss_calc_buffer_size env (e_ctx sc) (length run) = 0 \<or>
         \<not> evbuffer_reserve_space env (bufferevent_get_output to)
            (ss_calc_buffer_size env (e_ctx sc) (length run)) \<or>
         snd (ss_encrypt env (e_ctx sc) run) = None"
  shows "evbuffer_contents (bufferevent_get_output (snd (snd (encrypt_buffer env sc from to)))) =
           evbuffer_contents (bufferevent_get_output to)"
  using encrypt_mem_nothing_enqueued [of 0 env sc "length run" "bufferevent_get_output to" run]
    assms(3)
  by (simp add: encrypt_buffer_first_run [OF assms(1,2)])

lemma decrypt_buffer_nothing_enqueued:
  assumes "bufferevent_get_input from = run # rest" and "run \<noteq> []"
    and "ss_calc_buffer_size env (d_ctx sc) (length run) = 0 \<or>
         \<not> evbuffer_reserve_space env (bufferevent_get_output to)
            (ss_calc_buffer_size env (d_ctx sc) (length run)) \<or>
         snd (ss_decrypt env (d_ctx sc) run) = None"
  shows "evbuffer_contents (bufferevent_get_output (snd (snd (decrypt_buffer env sc from to)))) =
           evbuffer_contents (bufferevent_get_output to)"
  using encrypt_mem_nothing_enqueued [of 1 env sc "length run" "bufferevent_get_output to" run]
    assms(3)
  by (simp add: decrypt_buffer_first_run [OF assms(1,2)])

section \<open>Facts about the handlers\<close>

lemma encrypt_buffer_flags:
  "e_ctx_init (fst (encrypt_buffer env sc from to)) = e_ctx_init sc \<and>
   d_ctx_init (fst (encrypt_buffer env sc from to)) = d_ctx_init sc"
  using encrypt_mem_flags [of env sc _ _ "bufferevent_get_output to" 0]
  by (auto simp: encrypt_buffer_def Let_def split: prod.splits) (metis fst_conv)+

lemma decrypt_buffer_flags:
  "e_ctx_init (fst (decrypt_buffer env sc from to)) = e_ctx_init sc \<and>
   d_ctx_init (fst (decrypt_buffer env sc from to)) = d_ctx_init sc"
  using encrypt_mem_flags [of env sc _ _ "bufferevent_get_output to" 1]
  by (auto simp: decrypt_buffer_def Let_def split: prod.splits) (metis fst_conv)+

lemma ss_client_readcb_connected:
  assumes "state c = ss_connected" and "relay c = Some to"
  shows "ss_client_readcb env Client c =
     Some (if evbuffer_get_length (bufferevent_get_output to) < get_write_hwm to
           then c\<lparr>sclient := fst (encrypt_buffer env (sclient c) (client c) to),
                   client := bufferevent_enable
                     (fst (snd (encrypt_buffer env (sclient c) (client c) to))) EV_READ,
                   relay := Some (snd (snd (encrypt_buffer env (sclient c) (client c) to)))\<rparr>
           else c\<lparr>client := bufferevent_disable (client c) EV_READ\<rparr>)"
  using assms by (simp add: ss_client_readcb_def Let_def split: prod.splits)

lemma decrypt_buffer_nothing:
  "evbuffer_get_contiguous_space (bufferevent_get_input from) = 0 \<Longrightarrow>
   decrypt_buffer env sc from to = (sc, from, to)"
  by (simp add: decrypt_buffer_def)

lemma ss_relay_readcb_connected:
  assumes "state c = ss_connected" and "relay c = Some from"
  shows "ss_relay_readcb env Relay c =
     Some (if evbuffer_get_length (bufferevent_get_output (client c)) < get_write_hwm (client c)
           then c\<lparr>sclient := fst (decrypt_buffer env (sclient c) from (client c)),
                   client := snd (snd (decrypt_buffer env (sclient c) from (client c))),
                   relay := Some (bufferevent_enable
                     (fst (snd (decrypt_buffer env (sclient c) from (client c)))) EV_READ)\<rparr>
           else c\<lparr>relay := Some (bufferevent_disable from EV_READ)\<rparr>)"
  using assms
  by (cases "evbuffer_get_contiguous_space (bufferevent_get_input from) = 0")
    (simp_all add: ss_relay_readcb_def Let_def decrypt_buffer_nothing split: prod.splits)

lemma ss_relay_writecb_connected:
  assumes "relay c = Some to"
    and "process_shutdown_on_write env c Client Relay = (0, c1)"
    and "state c1 = ss_connected" and "relay c1 = Some to1"
  shows "ss_relay_writecb env Relay c =
     Some (if evbuffer_get_length (bufferevent_get_output to) < get_write_hwm to1
           then (if evbuffer_get_contiguous_space (bufferevent_get_input (client c)) \<noteq> 0
                 then c1\<lparr>sclient := fst (encrypt_buffer env (sclient c1) (client c1) to1),
                   client := (if client_evshut c1 AND EV_READ = 0
                     then bufferevent_enable
                       (fst (snd (encrypt_buffer env (sclient c1) (client c1) to1))) EV_READ
                     else fst (snd (encrypt_buffer env (sclient c1) (client c1) to1))),
                   relay := Some (snd (snd (encrypt_buffer env (sclient c1) (client c1) to1)))\<rparr>
                 else c1\<lparr>client := (if client_evshut c1 AND EV_READ = 0
                     then bufferevent_enable (client c1) EV_READ else client c1)\<rparr>)
           else c1)"
  using assms
  by (simp add: ss_relay_writecb_def Let_def split: prod.splits)

lemma ss_client_writecb_connected:
  assumes "relay c = Some from"
    and "process_shutdown_on_write env c Relay Client = (0, c1)"
    and "state c1 = ss_connected" and "relay c1 = Some from1"
  shows "ss_client_writecb env Client c =
     Some (if evbuffer_get_length (bufferevent_get_output (client c)) < get_write_hwm (client c1)
           then (if evbuffer_get_contiguous_space (bufferevent_get_input from) \<noteq> 0
                 then c1\<lparr>sclient := fst (decrypt_buffer env (sclient c1) from1 (client c1)),
                   client := snd (snd (decrypt_buffer env (sclient c1) from1 (client c1))),
                   relay := Some (if relay_evshut c1 AND EV_READ = 0
                     then bufferevent_enable
                       (fst (snd (decrypt_buffer env (sclient c1) from1 (client c1)))) EV_READ
                     else fst (snd (decrypt_buffer env (sclient c1) from1 (client c1))))\<rparr>
                 else c1\<lparr>relay := Some (if relay_evshut c1 AND EV_READ = 0
                     then bufferevent_enable from1 EV_READ else from1)\<rparr>)
           else c1)"
  using assms
  by (simp add: ss_client_writecb_def Let_def split: prod.splits)

lemma encrypt_buffer_enabled:
  "enabled (fst (snd (encrypt_buffer env sc from to))) = enabled from"
  by (simp add: encrypt_buffer_def Let_def split: prod.splits)

lemma decrypt_buffer_enabled:
  "enabled (fst (snd (decrypt_buffer env sc from to))) = enabled from"
  by (simp add: decrypt_buffer_def Let_def split: prod.splits)

lemma ss_relay_connected_asserts_new:
  "state c \<noteq> ss_new \<Longrightarrow> ss_relay_connected env buffev c = None"
  by (simp add: ss_relay_connected_def split: option.splits)

lemma ss_relay_connected_steady:
  assumes rl: "relay c = Some r" and st: "state c = ss_new"
    and ok: "red_is_socket_connected_ok env r" and sr: "start_relay_status env = 0"
  shows "ss_relay_connected env Relay c =
     (if evbuffer_get_length (bufferevent_get_input (client c)) \<noteq> 0
      then ss_relay_writecb env Relay
        (c\<lparr>relay_connected := True, state := ss_connected,
            client := bufferevent_setcb (client c)
              cb_ss_client_readcb cb_ss_client_writecb cb_redsocks_event_error,
            relay := Some (bufferevent_setcb (bufferevent_set_timeouts r None None)
              cb_ss_relay_readcb cb_ss_relay_writecb cb_redsocks_event_error)\<rparr>)
      else Some
        (c\<lparr>relay_connected := True, state := ss_connected,
            client := bufferevent_setcb (client c)
              cb_ss_client_readcb cb_ss_client_writecb cb_redsocks_event_error,
            relay := Some (bufferevent_setcb (bufferevent_set_timeouts r None None)
              cb_ss_relay_readcb cb_ss_relay_writecb cb_redsocks_event_error)\<rparr>))"
  using assms
  by (simp add: ss_relay_connected_def redsocks_start_relay_def Let_def bufferevent_setcb_def)










section \<open>Teardown\<close>

text \<open>
  C9. Calling \<^verbatim>\<open>ss_client_fini\<close> twice on the same connection never releases a cipher
  context twice: the first call frees a context only when its initialised flag is set
  and clears the flag, so the second call changes nothing and adds no call of
  \<^verbatim>\<open>enc_ctx_free\<close>, for the encrypt and for the decrypt context.
\<close>

theorem ss_client_fini_twice:
  "ss_client_fini (ss_client_fini c) = ss_client_fini c \<and>
   enc_ctx_free_calls (ss_client_fini c) =
     enc_ctx_free_calls c
       @ (if e_ctx_init (sclient c) \<noteq> 0 then [E_CTX] else [])
       @ (if d_ctx_init (sclient c) \<noteq> 0 then [D_CTX] else []) \<and>
   e_ctx_init (sclient (ss_client_fini c)) = 0 \<and>
   d_ctx_init (sclient (ss_client_fini c)) = 0 \<and>
   enc_ctx_free_calls (ss_client_fini (ss_client_fini c)) =
     enc_ctx_free_calls (ss_client_fini c)"
  by (simp add: ss_client_fini_def enc_ctx_free_def Let_def)

theorem ss_client_fini_twice_example:
  "enc_ctx_free_calls (ss_client_fini demo_client) = [E_CTX, D_CTX] \<and>
   enc_ctx_free_calls (ss_client_fini (ss_client_fini demo_client)) = [E_CTX, D_CTX]"
  using ss_client_fini_twice [of demo_client]
  by (simp add: demo_client_def)

section \<open>Credentials\<close>

text \<open>
  C7, as the specification words it, fails: the check accepts a well-sized pair whose
  method no cipher table knows, since \<^verbatim>\<open>ss_is_valid_cred\<close> never looks the method up.
\<close>

theorem ss_is_valid_cred_accepts_unrecognised:
  "ss_is_valid_cred (Some ''bogus'') (Some ''secret'') = 1 \<and>
   \<not> cred_check_spec [''table'', ''rc4-md5'', ''aes-256-cfb''] (Some ''bogus'') (Some ''secret'')"
  by (simp add: ss_is_valid_cred_def cred_check_spec_def strlen_def)

text \<open>
  C7, amended. The credential check succeeds exactly when both strings are non-null and
  each is at most 255 bytes long, so it succeeds for every such pair with a recognised
  method and fails for null or oversized input; it does not examine the method.
  Subsystem initialisation fails whenever the check fails, and otherwise exactly when
  \<^verbatim>\<open>enc_init\<close> reports \<^verbatim>\<open>-1\<close>.
\<close>

theorem ss_is_valid_cred_iff:
  "(ss_is_valid_cred m p = 1) =
     (\<exists>ms ps. m = Some ms \<and> p = Some ps \<and> strlen ms \<le> 255 \<and> strlen ps \<le> 255) \<and>
   (ss_is_valid_cred m p = 1 \<or> ss_is_valid_cred m p = 0) \<and>
   (cred_check_spec recognised m p \<longrightarrow> ss_is_valid_cred m p = 1) \<and>
   fst (ss_instance_init enc_init config ss) =
     (if ss_is_valid_cred (login config) (password config) = 0 then - 1
      else if fst (enc_init (info ss) (password config) (login config)) = - 1 then - 1
      else 0)"
  by (auto simp: ss_is_valid_cred_def cred_check_spec_def strlen_def ss_instance_init_def Let_def
      split: option.splits prod.splits)

theorem ss_is_valid_cred_iff_example:
  "cred_check_spec [''table'', ''rc4-md5'', ''aes-256-cfb''] (Some ''rc4-md5'') (Some ''secret'') \<and>
   ss_is_valid_cred (Some ''rc4-md5'') (Some ''secret'') = 1 \<and>
   fst (ss_instance_init (\<lambda>i pw m. (if m = Some ''rc4-md5'' then 2 else - 1, i))
          \<lparr>login = Some ''bogus'', password = Some ''secret''\<rparr>
          \<lparr>ss_method = 0, info = ()\<rparr>) = - 1"
  using ss_is_valid_cred_iff [of "Some ''rc4-md5''" "Some ''secret''"
      "[''table'', ''rc4-md5'', ''aes-256-cfb'']"
      "\<lambda>i pw m. (if m = Some ''rc4-md5'' then 2 else - 1, i)"
      "\<lparr>login = Some ''bogus'', password = Some ''secret''\<rparr>"
      "\<lparr>ss_method = 0, info = ()\<rparr>"]
  by (simp add: cred_check_spec_def ss_is_valid_cred_def strlen_def)

section \<open>The transform step\<close>

text \<open>
  C6. In every call of \<^verbatim>\<open>encrypt_mem\<close> in which the cipher transform (\<^verbatim>\<open>ss_encrypt\<close> or
  \<^verbatim>\<open>ss_decrypt\<close>, by \<^verbatim>\<open>decrypt\<close>) reports failure, the reserved space is committed with
  length zero: the readable contents and the length of the destination queue are what
  they were before the call.
\<close>

theorem encrypt_mem_failure_commits_nothing:
  assumes "(if decrypt \<noteq> 0 then snd (ss_decrypt env (d_ctx sc) (take len d))
            else snd (ss_encrypt env (e_ctx sc) (take len d))) = None"
  shows "snd (encrypt_mem env sc (Some d) len buf_out decrypt) =
           (if len \<noteq> 0 \<and>
               (if decrypt \<noteq> 0 then ss_calc_buffer_size env (d_ctx sc) len
                else ss_calc_buffer_size env (e_ctx sc) len) \<noteq> 0 \<and>
               evbuffer_reserve_space env buf_out
                 (if decrypt \<noteq> 0 then ss_calc_buffer_size env (d_ctx sc) len
                  else ss_calc_buffer_size env (e_ctx sc) len)
            then evbuffer_commit_space buf_out [] else buf_out) \<and>
         evbuffer_contents (snd (encrypt_mem env sc (Some d) len buf_out decrypt)) =
           evbuffer_contents buf_out \<and>
         evbuffer_get_length (snd (encrypt_mem env sc (Some d) len buf_out decrypt)) =
           evbuffer_get_length buf_out"
  using assms
  by (auto simp: encrypt_mem_def Let_def evbuffer_commit_nothing split: prod.splits if_splits)

theorem encrypt_mem_failure_commits_nothing_example:
  "snd (ss_encrypt (demo_env\<lparr>ss_encrypt := (\<lambda>ctx d. (ctx, None))\<rparr>) 0 (take 3 [1, 2, 3])) = None \<and>
   evbuffer_contents
     (snd (encrypt_mem (demo_env\<lparr>ss_encrypt := (\<lambda>ctx d. (ctx, None))\<rparr>)
        (sclient demo_client) (Some [1, 2, 3]) 3 [[7, 8]] 0)) = [7, 8]"
  using encrypt_mem_failure_commits_nothing
    [of 0 "demo_env\<lparr>ss_encrypt := (\<lambda>ctx d. (ctx, None))\<rparr>" "sclient demo_client" 3
        "[1, 2, 3]" "[[7, 8]]"]
  by (simp add: demo_client_def demo_env_def evbuffer_contents_def evbuffer_commit_space_def)

section \<open>The buffer pump\<close>

text \<open>
  C5, as the specification words it, fails: when the reservation in the destination's
  output queue fails, the first contiguous run is drained from the source but nothing
  of it reaches the destination, and the cipher is not even called.
\<close>

theorem buffer_pump_reservation_failure:
  "bufferevent_get_input (client demo_client) = [[1, 2, 3], [4, 5]] \<and>
   encrypt_buffer demo_env_reserve_fails (sclient demo_client) (client demo_client) demo_bev =
     (sclient demo_client,
      (client demo_client)\<lparr>bufferevent_get_input := [[4, 5]]\<rparr>,
      demo_bev) \<and>
   evbuffer_contents (bufferevent_get_output demo_bev) = []"
  by (simp add: demo_env_reserve_fails_def demo_client_def demo_env_def demo_bev_def
      encrypt_buffer_def encrypt_mem_def evbuffer_pullup_def evbuffer_contents_def
      evbuffer_get_contiguous_space_def evbuffer_get_length_def Let_def)

text \<open>
  C5, amended. Each call of \<^verbatim>\<open>encrypt_buffer\<close> or \<^verbatim>\<open>decrypt_buffer\<close> processes exactly the
  first contiguous run of unread bytes of the source's input queue. If that run is empty
  the call changes nothing. Otherwise the transform step receives exactly that run, the
  source queue loses exactly that many bytes, and the chains after the run keep their
  contents for a later event. The destination's output queue gains the transform's
  output when the worst-case size is nonzero and reservation and transform succeed; when
  the size is zero, the reservation fails or the transform fails, its contents stay as
  they were. Nothing else of the two streams changes.
\<close>

theorem buffer_pump_first_contiguous_run:
  "(evbuffer_get_contiguous_space (bufferevent_get_input from) = 0 \<longrightarrow>
      encrypt_buffer env sc from to = (sc, from, to) \<and>
      decrypt_buffer env sc from to = (sc, from, to)) \<and>
   (bufferevent_get_input from = run # rest \<and> run \<noteq> [] \<longrightarrow>
      (case encrypt_buffer env sc from to of
         (sc1, from1, to1) \<Rightarrow>
           from1 = from\<lparr>bufferevent_get_input := evbuffer_drain rest 0\<rparr> \<and>
           evbuffer_contents (bufferevent_get_input from1) = evbuffer_contents rest \<and>
           evbuffer_get_length (bufferevent_get_input from1) + length run =
             evbuffer_get_length (bufferevent_get_input from) \<and>
           (sc1, bufferevent_get_output to1) =
             encrypt_mem env sc (Some run) (length run) (bufferevent_get_output to) 0 \<and>
           to1 = to\<lparr>bufferevent_get_output := bufferevent_get_output to1\<rparr> \<and>
           (\<forall>ctx iov.
              ss_calc_buffer_size env (e_ctx sc) (length run) \<noteq> 0 \<and>
              evbuffer_reserve_space env (bufferevent_get_output to)
                (ss_calc_buffer_size env (e_ctx sc) (length run)) \<and>
              ss_encrypt env (e_ctx sc) run = (ctx, Some iov) \<longrightarrow>
              evbuffer_contents (bufferevent_get_output to1) =
                evbuffer_contents (bufferevent_get_output to) @ iov) \<and>
           (ss_calc_buffer_size env (e_ctx sc) (length run) = 0 \<or>
            \<not> evbuffer_reserve_space env (bufferevent_get_output to)
               (ss_calc_buffer_size env (e_ctx sc) (length run)) \<or>
            snd (ss_encrypt env (e_ctx sc) run) = None \<longrightarrow>
            evbuffer_contents (bufferevent_get_output to1) =
              evbuffer_contents (bufferevent_get_output to))) \<and>
      (case decrypt_buffer env sc from to of
         (sc1, from1, to1) \<Rightarrow>
           from1 = from\<lparr>bufferevent_get_input := evbuffer_drain rest 0\<rparr> \<and>
           evbuffer_contents (bufferevent_get_input from1) = evbuffer_contents rest \<and>
           evbuffer_get_length (bufferevent_get_input from1) + length run =
             evbuffer_get_length (bufferevent_get_input from) \<and>
           (sc1, bufferevent_get_output to1) =
             encrypt_mem env sc (Some run) (length run) (bufferevent_get_output to) 1 \<and>
           to1 = to\<lparr>bufferevent_get_output := bufferevent_get_output to1\<rparr> \<and>
           (\<forall>ctx iov.
              ss_calc_buffer_size env (d_ctx sc) (length run) \<noteq> 0 \<and>
              evbuffer_reserve_space env (bufferevent_get_output to)
                (ss_calc_buffer_size env (d_ctx sc) (length run)) \<and>
              ss_decrypt env (d_ctx sc) run = (ctx, Some iov) \<longrightarrow>
              evbuffer_contents (bufferevent_get_output to1) =
                evbuffer_contents (bufferevent_get_output to) @ iov) \<and>
           (ss_calc_buffer_size env (d_ctx sc) (length run) = 0 \<or>
            \<not> evbuffer_reserve_space env (bufferevent_get_output to)
               (ss_calc_buffer_size env (d_ctx sc) (length run)) \<or>
            snd (ss_decrypt env (d_ctx sc) run) = None \<longrightarrow>
            evbuffer_contents (bufferevent_get_output to1) =
              evbuffer_contents (bufferevent_get_output to))))"
proof (intro conjI impI)
  assume "evbuffer_get_contiguous_space (bufferevent_get_input from) = 0"
  then show "encrypt_buffer env sc from to = (sc, from, to)"
    and "decrypt_buffer env sc from to = (sc, from, to)"
    by (simp_all add: encrypt_buffer_def decrypt_buffer_def)
next
  assume a: "bufferevent_get_input from = run # rest \<and> run \<noteq> []"
  then have inp: "bufferevent_get_input from = run # rest" and ne: "run \<noteq> []"
    by simp_all
  have len: "evbuffer_get_length (evbuffer_drain rest 0) + length run =
      evbuffer_get_length (run # rest)"
    by (simp add: evbuffer_drain_length) (simp add: evbuffer_get_length_def)
  have cont: "evbuffer_contents (evbuffer_drain rest 0) = evbuffer_contents rest"
    by (simp add: evbuffer_drain_contents)
  show "case encrypt_buffer env sc from to of
         (sc1, from1, to1) \<Rightarrow>
           from1 = from\<lparr>bufferevent_get_input := evbuffer_drain rest 0\<rparr> \<and>
           evbuffer_contents (bufferevent_get_input from1) = evbuffer_contents rest \<and>
           evbuffer_get_length (bufferevent_get_input from1) + length run =
             evbuffer_get_length (bufferevent_get_input from) \<and>
           (sc1, bufferevent_get_output to1) =
             encrypt_mem env sc (Some run) (length run) (bufferevent_get_output to) 0 \<and>
           to1 = to\<lparr>bufferevent_get_output := bufferevent_get_output to1\<rparr> \<and>
           (\<forall>ctx iov.
              ss_calc_buffer_size env (e_ctx sc) (length run) \<noteq> 0 \<and>
              evbuffer_reserve_space env (bufferevent_get_output to)
                (ss_calc_buffer_size env (e_ctx sc) (length run)) \<and>
              ss_encrypt env (e_ctx sc) run = (ctx, Some iov) \<longrightarrow>
              evbuffer_contents (bufferevent_get_output to1) =
                evbuffer_contents (bufferevent_get_output to) @ iov) \<and>
           (ss_calc_buffer_size env (e_ctx sc) (length run) = 0 \<or>
            \<not> evbuffer_reserve_space env (bufferevent_get_output to)
               (ss_calc_buffer_size env (e_ctx sc) (length run)) \<or>
            snd (ss_encrypt env (e_ctx sc) run) = None \<longrightarrow>
            evbuffer_contents (bufferevent_get_output to1) =
              evbuffer_contents (bufferevent_get_output to))"
    using ne len cont
    by (simp add: encrypt_buffer_first_run [OF inp ne] inp)
      (auto simp: encrypt_mem_def Let_def evbuffer_commit_space_def evbuffer_contents_def
        split: prod.splits)
  show "case decrypt_buffer env sc from to of
         (sc1, from1, to1) \<Rightarrow>
           from1 = from\<lparr>bufferevent_get_input := evbuffer_drain rest 0\<rparr> \<and>
           evbuffer_contents (bufferevent_get_input from1) = evbuffer_contents rest \<and>
           evbuffer_get_length (bufferevent_get_input from1) + length run =
             evbuffer_get_length (bufferevent_get_input from) \<and>
           (sc1, bufferevent_get_output to1) =
             encrypt_mem env sc (Some run) (length run) (bufferevent_get_output to) 1 \<and>
           to1 = to\<lparr>bufferevent_get_output := bufferevent_get_output to1\<rparr> \<and>
           (\<forall>ctx iov.
              ss_calc_buffer_size env (d_ctx sc) (length run) \<noteq> 0 \<and>
              evbuffer_reserve_space env (bufferevent_get_output to)
                (ss_calc_buffer_size env (d_ctx sc) (length run)) \<and>
              ss_decrypt env (d_ctx sc) run = (ctx, Some iov) \<longrightarrow>
              evbuffer_contents (bufferevent_get_output to1) =
                evbuffer_contents (bufferevent_get_output to) @ iov) \<and>
           (ss_calc_buffer_size env (d_ctx sc) (length run) = 0 \<or>
            \<not> evbuffer_reserve_space env (bufferevent_get_output to)
               (ss_calc_buffer_size env (d_ctx sc) (length run)) \<or>
            snd (ss_decrypt env (d_ctx sc) run) = None \<longrightarrow>
            evbuffer_contents (bufferevent_get_output to1) =
              evbuffer_contents (bufferevent_get_output to))"
    using ne len cont
    by (simp add: decrypt_buffer_first_run [OF inp ne] inp)
      (auto simp: encrypt_mem_def Let_def evbuffer_commit_space_def evbuffer_contents_def
        split: prod.splits)
qed

theorem buffer_pump_first_contiguous_run_example:
  "encrypt_buffer demo_env (sclient demo_client) (client demo_client) demo_bev =
     (\<lparr>e_ctx = 3, d_ctx = 0, e_ctx_init = 1, d_ctx_init = 1\<rparr>,
      demo_bev\<lparr>bufferevent_get_input := [[4, 5]], enabled := 6\<rparr>,
      demo_bev\<lparr>bufferevent_get_output := [[43, 40, 41]]\<rparr>) \<and>
   decrypt_buffer demo_env (sclient demo_client) demo_bev (client demo_client) =
     (sclient demo_client, demo_bev, client demo_client)"
  using buffer_pump_first_contiguous_run
    [of "client demo_client" demo_env "sclient demo_client" demo_bev "[1, 2, 3]" "[[4, 5]]"]
    buffer_pump_first_contiguous_run
    [of demo_bev demo_env "sclient demo_client" "client demo_client" "[]" "[]"]
  by (simp add: demo_client_def demo_env_def demo_bev_def demo_cipher_def
      encrypt_buffer_def decrypt_buffer_def encrypt_mem_def evbuffer_pullup_def
      evbuffer_get_contiguous_space_def evbuffer_get_length_def evbuffer_commit_space_def
      Let_def)

text \<open>
  C10. Whenever \<^verbatim>\<open>encrypt_buffer\<close> or \<^verbatim>\<open>decrypt_buffer\<close> processes a non-empty contiguous
  chunk, the source's input queue is drained by the full chunk length whatever the
  outcome: also when the worst-case size is zero, the reservation fails or the cipher
  fails, in which cases the destination keeps its contents, so the consumed bytes are
  gone. The read handlers that ran the pump return normally with the connection still
  connected and not dropped.
\<close>

theorem buffer_pump_drains_unconditionally:
  assumes inp: "bufferevent_get_input from = run # rest" and ne: "run \<noteq> []"
  shows "bufferevent_get_input (fst (snd (encrypt_buffer env sc from to))) =
           evbuffer_drain (run # rest) (length run) \<and>
         bufferevent_get_input (fst (snd (decrypt_buffer env sc from to))) =
           evbuffer_drain (run # rest) (length run) \<and>
         evbuffer_contents (evbuffer_drain (run # rest) (length run)) =
           drop (length run) (evbuffer_contents (bufferevent_get_input from)) \<and>
         evbuffer_get_length (evbuffer_drain (run # rest) (length run)) =
           evbuffer_get_length (bufferevent_get_input from) - length run \<and>
         (ss_calc_buffer_size env (e_ctx sc) (length run) = 0 \<or>
          \<not> evbuffer_reserve_space env (bufferevent_get_output to)
             (ss_calc_buffer_size env (e_ctx sc) (length run)) \<or>
          snd (ss_encrypt env (e_ctx sc) run) = None \<longrightarrow>
          evbuffer_contents (bufferevent_get_output (snd (snd (encrypt_buffer env sc from to)))) =
            evbuffer_contents (bufferevent_get_output to)) \<and>
         (ss_calc_buffer_size env (d_ctx sc) (length run) = 0 \<or>
          \<not> evbuffer_reserve_space env (bufferevent_get_output to)
             (ss_calc_buffer_size env (d_ctx sc) (length run)) \<or>
          snd (ss_decrypt env (d_ctx sc) run) = None \<longrightarrow>
          evbuffer_contents (bufferevent_get_output (snd (snd (decrypt_buffer env sc from to)))) =
            evbuffer_contents (bufferevent_get_output to)) \<and>
         (\<forall>c. state c = ss_connected \<and> client c = from \<and> relay c = Some to \<and>
              evbuffer_get_length (bufferevent_get_output to) < get_write_hwm to \<longrightarrow>
              (\<exists>c'. ss_client_readcb env Client c = Some c' \<and>
                    state c' = ss_connected \<and> dropped c' = dropped c \<and>
                    bufferevent_get_input (client c') =
                      evbuffer_drain (run # rest) (length run))) \<and>
         (\<forall>c. state c = ss_connected \<and> relay c = Some from \<and> client c = to \<and>
              evbuffer_get_length (bufferevent_get_output to) < get_write_hwm to \<longrightarrow>
              (\<exists>c' from'. ss_relay_readcb env Relay c = Some c' \<and>
                    state c' = ss_connected \<and> dropped c' = dropped c \<and>
                    relay c' = Some from' \<and>
                    bufferevent_get_input from' = evbuffer_drain (run # rest) (length run)))"
proof -
  have e: "bufferevent_get_input (fst (snd (encrypt_buffer env sc' from to'))) =
      evbuffer_drain (run # rest) (length run)" for sc' to'
    using ne by (simp add: encrypt_buffer_first_run [OF inp ne])
  have d: "bufferevent_get_input (fst (snd (decrypt_buffer env sc' from to'))) =
      evbuffer_drain (run # rest) (length run)" for sc' to'
    using ne by (simp add: decrypt_buffer_first_run [OF inp ne])
  have c: "evbuffer_contents (evbuffer_drain (run # rest) (length run)) =
      drop (length run) (evbuffer_contents (bufferevent_get_input from))"
    by (simp only: evbuffer_drain_contents inp)
  have l: "evbuffer_get_length (evbuffer_drain (run # rest) (length run)) =
      evbuffer_get_length (bufferevent_get_input from) - length run"
    by (simp only: evbuffer_drain_length inp)
  have ef: "ss_calc_buffer_size env (e_ctx sc) (length run) = 0 \<or>
          \<not> evbuffer_reserve_space env (bufferevent_get_output to)
             (ss_calc_buffer_size env (e_ctx sc) (length run)) \<or>
          snd (ss_encrypt env (e_ctx sc) run) = None \<longrightarrow>
          evbuffer_contents (bufferevent_get_output (snd (snd (encrypt_buffer env sc from to)))) =
            evbuffer_contents (bufferevent_get_output to)"
    using encrypt_buffer_nothing_enqueued [OF inp ne] by blast
  have df: "ss_calc_buffer_size env (d_ctx sc) (length run) = 0 \<or>
          \<not> evbuffer_reserve_space env (bufferevent_get_output to)
             (ss_calc_buffer_size env (d_ctx sc) (length run)) \<or>
          snd (ss_decrypt env (d_ctx sc) run) = None \<longrightarrow>
          evbuffer_contents (bufferevent_get_output (snd (snd (decrypt_buffer env sc from to)))) =
            evbuffer_contents (bufferevent_get_output to)"
    using decrypt_buffer_nothing_enqueued [OF inp ne] by blast
  have hc: "\<forall>c. state c = ss_connected \<and> client c = from \<and> relay c = Some to \<and>
              evbuffer_get_length (bufferevent_get_output to) < get_write_hwm to \<longrightarrow>
              (\<exists>c'. ss_client_readcb env Client c = Some c' \<and>
                    state c' = ss_connected \<and> dropped c' = dropped c \<and>
                    bufferevent_get_input (client c') =
                      evbuffer_drain (run # rest) (length run))"
    using e by (auto simp: ss_client_readcb_connected bufferevent_enable_def)
  have hr: "\<forall>c. state c = ss_connected \<and> relay c = Some from \<and> client c = to \<and>
              evbuffer_get_length (bufferevent_get_output to) < get_write_hwm to \<longrightarrow>
              (\<exists>c' from'. ss_relay_readcb env Relay c = Some c' \<and>
                    state c' = ss_connected \<and> dropped c' = dropped c \<and>
                    relay c' = Some from' \<and>
                    bufferevent_get_input from' = evbuffer_drain (run # rest) (length run))"
    using d by (auto simp: ss_relay_readcb_connected bufferevent_enable_def)
  from e d c l ef df hc hr show ?thesis by blast
qed

theorem buffer_pump_drains_unconditionally_example:
  "bufferevent_get_input (client demo_client) = [1, 2, 3] # [[4, 5]] \<and>
   bufferevent_get_input
     (fst (snd (encrypt_buffer demo_env_cipher_fails (sclient demo_client)
        (client demo_client) demo_bev))) = [[4, 5]] \<and>
   evbuffer_contents (bufferevent_get_output
     (snd (snd (encrypt_buffer demo_env_cipher_fails (sclient demo_client)
        (client demo_client) demo_bev)))) = []"
  using buffer_pump_drains_unconditionally
    [of "client demo_client" "[1, 2, 3]" "[[4, 5]]" demo_env_cipher_fails
        "sclient demo_client" demo_bev]
  by (simp add: demo_client_def demo_env_cipher_fails_def demo_env_def demo_bev_def
      evbuffer_contents_def)

section \<open>Transform failure in the steady state\<close>

text \<open>
  C3, as the specification words it, fails: with a cipher that reports failure the
  client-read handler consumes the chunk, forwards nothing, and leaves the connection
  connected, not dropped and with no cipher context released.
\<close>

theorem cipher_failure_not_fatal:
  "snd (ss_encrypt demo_env_cipher_fails (e_ctx (sclient demo_client)) [1, 2, 3]) = None \<and>
   map_option state (ss_client_readcb demo_env_cipher_fails Client demo_client) =
     Some ss_connected \<and>
   map_option dropped (ss_client_readcb demo_env_cipher_fails Client demo_client) =
     Some False \<and>
   map_option enc_ctx_free_calls (ss_client_readcb demo_env_cipher_fails Client demo_client) =
     Some [] \<and>
   map_option (\<lambda>c. bufferevent_get_input (client c))
     (ss_client_readcb demo_env_cipher_fails Client demo_client) = Some [[4, 5]] \<and>
   map_option (\<lambda>c. map_option (\<lambda>r. evbuffer_contents (bufferevent_get_output r)) (relay c))
     (ss_client_readcb demo_env_cipher_fails Client demo_client) = Some (Some [])"
  by (simp add: demo_env_cipher_fails_def demo_client_def demo_env_def demo_bev_def
      ss_client_readcb_def encrypt_buffer_def encrypt_mem_def evbuffer_pullup_def
      evbuffer_get_contiguous_space_def evbuffer_get_length_def evbuffer_commit_space_def
      evbuffer_contents_def get_write_hwm_def bufferevent_enable_def Let_def)

text \<open>
  C3, amended. When the steady-state transform fails inside the data pump, the failure
  stays inside \<^verbatim>\<open>encrypt_mem\<close>: each of the four handlers returns normally, the
  connection stays connected and is not dropped, no cipher context is released and both
  initialised flags keep their values, and the destination's contents are unchanged.
  (For the write handlers: when the shutdown helper returned 0 and left the connection
  as it was.)
\<close>

theorem pump_failure_keeps_connection:
  assumes st: "state c = ss_connected" and rl: "relay c = Some r"
  shows "(bufferevent_get_input (client c) = run # rest \<and> run \<noteq> [] \<and>
          snd (ss_encrypt env (e_ctx (sclient c)) run) = None \<longrightarrow>
          (\<exists>c' r'. ss_client_readcb env Client c = Some c' \<and>
             state c' = ss_connected \<and> dropped c' = dropped c \<and>
             enc_ctx_free_calls c' = enc_ctx_free_calls c \<and>
             e_ctx_init (sclient c') = e_ctx_init (sclient c) \<and>
             d_ctx_init (sclient c') = d_ctx_init (sclient c) \<and>
             relay c' = Some r' \<and>
             evbuffer_contents (bufferevent_get_output r') =
               evbuffer_contents (bufferevent_get_output r))) \<and>
         (bufferevent_get_input r = run # rest \<and> run \<noteq> [] \<and>
          snd (ss_decrypt env (d_ctx (sclient c)) run) = None \<longrightarrow>
          (\<exists>c'. ss_relay_readcb env Relay c = Some c' \<and>
             state c' = ss_connected \<and> dropped c' = dropped c \<and>
             enc_ctx_free_calls c' = enc_ctx_free_calls c \<and>
             e_ctx_init (sclient c') = e_ctx_init (sclient c) \<and>
             d_ctx_init (sclient c') = d_ctx_init (sclient c) \<and>
             evbuffer_contents (bufferevent_get_output (client c')) =
               evbuffer_contents (bufferevent_get_output (client c)))) \<and>
         (process_shutdown_on_write env c Client Relay = (0, c) \<and>
          bufferevent_get_input (client c) = run # rest \<and> run \<noteq> [] \<and>
          snd (ss_encrypt env (e_ctx (sclient c)) run) = None \<longrightarrow>
          (\<exists>c' r'. ss_relay_writecb env Relay c = Some c' \<and>
             state c' = ss_connected \<and> dropped c' = dropped c \<and>
             enc_ctx_free_calls c' = enc_ctx_free_calls c \<and>
             e_ctx_init (sclient c') = e_ctx_init (sclient c) \<and>
             d_ctx_init (sclient c') = d_ctx_init (sclient c) \<and>
             relay c' = Some r' \<and>
             evbuffer_contents (bufferevent_get_output r') =
               evbuffer_contents (bufferevent_get_output r))) \<and>
         (process_shutdown_on_write env c Relay Client = (0, c) \<and>
          bufferevent_get_input r = run # rest \<and> run \<noteq> [] \<and>
          snd (ss_decrypt env (d_ctx (sclient c)) run) = None \<longrightarrow>
          (\<exists>c'. ss_client_writecb env Client c = Some c' \<and>
             state c' = ss_connected \<and> dropped c' = dropped c \<and>
             enc_ctx_free_calls c' = enc_ctx_free_calls c \<and>
             e_ctx_init (sclient c') = e_ctx_init (sclient c) \<and>
             d_ctx_init (sclient c') = d_ctx_init (sclient c) \<and>
             evbuffer_contents (bufferevent_get_output (client c')) =
               evbuffer_contents (bufferevent_get_output (client c))))"
proof (intro conjI impI)
  assume a: "bufferevent_get_input (client c) = run # rest \<and> run \<noteq> [] \<and>
          snd (ss_encrypt env (e_ctx (sclient c)) run) = None"
  then have out: "evbuffer_contents (bufferevent_get_output
      (snd (snd (encrypt_buffer env (sclient c) (client c) r)))) =
      evbuffer_contents (bufferevent_get_output r)"
    using encrypt_buffer_nothing_enqueued [of "client c" run rest env "sclient c" r] by blast
  show "\<exists>c' r'. ss_client_readcb env Client c = Some c' \<and>
             state c' = ss_connected \<and> dropped c' = dropped c \<and>
             enc_ctx_free_calls c' = enc_ctx_free_calls c \<and>
             e_ctx_init (sclient c') = e_ctx_init (sclient c) \<and>
             d_ctx_init (sclient c') = d_ctx_init (sclient c) \<and>
             relay c' = Some r' \<and>
             evbuffer_contents (bufferevent_get_output r') =
               evbuffer_contents (bufferevent_get_output r)"
    using st rl out encrypt_buffer_flags [of env "sclient c" "client c" r]
    by (simp add: ss_client_readcb_connected [OF st rl])
next
  assume a: "bufferevent_get_input r = run # rest \<and> run \<noteq> [] \<and>
          snd (ss_decrypt env (d_ctx (sclient c)) run) = None"
  then have out: "evbuffer_contents (bufferevent_get_output
      (snd (snd (decrypt_buffer env (sclient c) r (client c))))) =
      evbuffer_contents (bufferevent_get_output (client c))"
    using decrypt_buffer_nothing_enqueued [of r run rest env "sclient c" "client c"] by blast
  show "\<exists>c'. ss_relay_readcb env Relay c = Some c' \<and>
             state c' = ss_connected \<and> dropped c' = dropped c \<and>
             enc_ctx_free_calls c' = enc_ctx_free_calls c \<and>
             e_ctx_init (sclient c') = e_ctx_init (sclient c) \<and>
             d_ctx_init (sclient c') = d_ctx_init (sclient c) \<and>
             evbuffer_contents (bufferevent_get_output (client c')) =
               evbuffer_contents (bufferevent_get_output (client c))"
    using st rl out decrypt_buffer_flags [of env "sclient c" r "client c"]
    by (simp add: ss_relay_readcb_connected [OF st rl])
next
  assume a: "process_shutdown_on_write env c Client Relay = (0, c) \<and>
          bufferevent_get_input (client c) = run # rest \<and> run \<noteq> [] \<and>
          snd (ss_encrypt env (e_ctx (sclient c)) run) = None"
  then have sh: "process_shutdown_on_write env c Client Relay = (0, c)" by simp
  from a have out: "evbuffer_contents (bufferevent_get_output
      (snd (snd (encrypt_buffer env (sclient c) (client c) r)))) =
      evbuffer_contents (bufferevent_get_output r)"
    using encrypt_buffer_nothing_enqueued [of "client c" run rest env "sclient c" r] by blast
  show "\<exists>c' r'. ss_relay_writecb env Relay c = Some c' \<and>
             state c' = ss_connected \<and> dropped c' = dropped c \<and>
             enc_ctx_free_calls c' = enc_ctx_free_calls c \<and>
             e_ctx_init (sclient c') = e_ctx_init (sclient c) \<and>
             d_ctx_init (sclient c') = d_ctx_init (sclient c) \<and>
             relay c' = Some r' \<and>
             evbuffer_contents (bufferevent_get_output r') =
               evbuffer_contents (bufferevent_get_output r)"
    using st rl out encrypt_buffer_flags [of env "sclient c" "client c" r]
    by (simp add: ss_relay_writecb_connected [OF rl sh st rl])
next
  assume a: "process_shutdown_on_write env c Relay Client = (0, c) \<and>
          bufferevent_get_input r = run # rest \<and> run \<noteq> [] \<and>
          snd (ss_decrypt env (d_ctx (sclient c)) run) = None"
  then have sh: "process_shutdown_on_write env c Relay Client = (0, c)" by simp
  from a have out: "evbuffer_contents (bufferevent_get_output
      (snd (snd (decrypt_buffer env (sclient c) r (client c))))) =
      evbuffer_contents (bufferevent_get_output (client c))"
    using decrypt_buffer_nothing_enqueued [of r run rest env "sclient c" "client c"] by blast
  show "\<exists>c'. ss_client_writecb env Client c = Some c' \<and>
             state c' = ss_connected \<and> dropped c' = dropped c \<and>
             enc_ctx_free_calls c' = enc_ctx_free_calls c \<and>
             e_ctx_init (sclient c') = e_ctx_init (sclient c) \<and>
             d_ctx_init (sclient c') = d_ctx_init (sclient c) \<and>
             evbuffer_contents (bufferevent_get_output (client c')) =
               evbuffer_contents (bufferevent_get_output (client c))"
    using st rl out decrypt_buffer_flags [of env "sclient c" r "client c"]
    by (simp add: ss_client_writecb_connected [OF rl sh st rl])
qed

theorem pump_failure_keeps_connection_example:
  "state demo_client = ss_connected \<and>
   relay demo_client = Some (demo_bev\<lparr>enabled := 6\<rparr>) \<and>
   bufferevent_get_input (client demo_client) = [1, 2, 3] # [[4, 5]] \<and>
   snd (ss_encrypt demo_env_cipher_fails (e_ctx (sclient demo_client)) [1, 2, 3]) = None \<and>
   (\<exists>c'. ss_client_readcb demo_env_cipher_fails Client demo_client = Some c' \<and>
      state c' = ss_connected \<and> \<not> dropped c' \<and> enc_ctx_free_calls c' = [])"
  using pump_failure_keeps_connection
    [of demo_client "demo_bev\<lparr>enabled := 6\<rparr>" "[1, 2, 3]" "[[4, 5]]" demo_env_cipher_fails]
  by (simp add: demo_client_def demo_env_cipher_fails_def demo_env_def) blast

section \<open>Backpressure\<close>

text \<open>
  C2, as the specification words it, fails in its last part: with the relay's output
  queue below the mark, a write-completion on the relay does not re-enable reads on a
  client whose read side is already shut down.
\<close>

theorem write_completion_skips_half_closed_source:
  "state demo_client_half_closed = ss_connected \<and>
   client_evshut demo_client_half_closed AND EV_READ = EV_READ \<and>
   map_option (\<lambda>r. evbuffer_get_length (bufferevent_get_output r) < get_write_hwm r)
     (relay demo_client_half_closed) = Some True \<and>
   enabled (client demo_client_half_closed) AND EV_READ = 0 \<and>
   map_option (\<lambda>c. enabled (client c) AND EV_READ)
     (ss_relay_writecb demo_env Relay demo_client_half_closed) = Some 0"
  by (simp add: demo_client_half_closed_def demo_client_def demo_env_def demo_bev_def
      demo_cipher_def ss_relay_writecb_def encrypt_buffer_def encrypt_mem_def
      evbuffer_pullup_def evbuffer_get_contiguous_space_def evbuffer_get_length_def
      evbuffer_commit_space_def get_write_hwm_def EV_READ_def EV_WRITE_def Let_def)

text \<open>
  C2, amended. In state CONNECTED a read event on a source stream whose destination
  queue is at or above the write high-water mark disables reads on the source and
  leaves everything else, so no output is enqueued; strictly below the mark the handler
  runs the pump on the available chunk and enables reads on the source. A
  write-completion on the destination hands the event to the shutdown helper first;
  when the helper returns nonzero the handler stops there. Otherwise it re-checks the
  mark: at or above it nothing changes, below it reads on the source are re-enabled
  unless the source's \<^verbatim>\<open>evshut\<close> flag has \<^verbatim>\<open>EV_READ\<close>, in which case the source's event
  mask stays as it was.
\<close>

theorem backpressure_policy:
  assumes st: "state c = ss_connected" and rl: "relay c = Some r"
  shows "(get_write_hwm r \<le> evbuffer_get_length (bufferevent_get_output r) \<longrightarrow>
            ss_client_readcb env Client c =
              Some (c\<lparr>client := bufferevent_disable (client c) EV_READ\<rparr>) \<and>
            enabled (bufferevent_disable (client c) EV_READ) AND EV_READ = 0) \<and>
         (evbuffer_get_length (bufferevent_get_output r) < get_write_hwm r \<longrightarrow>
            ss_client_readcb env Client c =
              Some (c\<lparr>sclient := fst (encrypt_buffer env (sclient c) (client c) r),
                      client := bufferevent_enable
                        (fst (snd (encrypt_buffer env (sclient c) (client c) r))) EV_READ,
                      relay := Some (snd (snd (encrypt_buffer env (sclient c) (client c) r)))\<rparr>) \<and>
            enabled (bufferevent_enable
              (fst (snd (encrypt_buffer env (sclient c) (client c) r))) EV_READ) AND EV_READ =
              EV_READ) \<and>
         (get_write_hwm (client c) \<le> evbuffer_get_length (bufferevent_get_output (client c)) \<longrightarrow>
            ss_relay_readcb env Relay c =
              Some (c\<lparr>relay := Some (bufferevent_disable r EV_READ)\<rparr>) \<and>
            enabled (bufferevent_disable r EV_READ) AND EV_READ = 0) \<and>
         (evbuffer_get_length (bufferevent_get_output (client c)) < get_write_hwm (client c) \<longrightarrow>
            ss_relay_readcb env Relay c =
              Some (c\<lparr>sclient := fst (decrypt_buffer env (sclient c) r (client c)),
                      client := snd (snd (decrypt_buffer env (sclient c) r (client c))),
                      relay := Some (bufferevent_enable
                        (fst (snd (decrypt_buffer env (sclient c) r (client c)))) EV_READ)\<rparr>) \<and>
            enabled (bufferevent_enable
              (fst (snd (decrypt_buffer env (sclient c) r (client c)))) EV_READ) AND EV_READ =
              EV_READ) \<and>
         (\<forall>rc c1 r1. process_shutdown_on_write env c Client Relay = (rc, c1) \<and>
            (rc = 0 \<longrightarrow> state c1 = ss_connected \<and> relay c1 = Some r1) \<longrightarrow>
            (\<exists>c'. ss_relay_writecb env Relay c = Some c' \<and>
               (rc \<noteq> 0 \<longrightarrow> c' = c1) \<and>
               (rc = 0 \<and> get_write_hwm r1 \<le> evbuffer_get_length (bufferevent_get_output r)
                  \<longrightarrow> c' = c1) \<and>
               (rc = 0 \<and> evbuffer_get_length (bufferevent_get_output r) < get_write_hwm r1 \<and>
                client_evshut c1 AND EV_READ = 0
                  \<longrightarrow> enabled (client c') AND EV_READ = EV_READ) \<and>
               (rc = 0 \<and> evbuffer_get_length (bufferevent_get_output r) < get_write_hwm r1 \<and>
                client_evshut c1 AND EV_READ \<noteq> 0
                  \<longrightarrow> enabled (client c') = enabled (client c1)))) \<and>
         (\<forall>rc c1 r1. process_shutdown_on_write env c Relay Client = (rc, c1) \<and>
            (rc = 0 \<longrightarrow> state c1 = ss_connected \<and> relay c1 = Some r1) \<longrightarrow>
            (\<exists>c'. ss_client_writecb env Client c = Some c' \<and>
               (rc \<noteq> 0 \<longrightarrow> c' = c1) \<and>
               (rc = 0 \<and>
                get_write_hwm (client c1) \<le> evbuffer_get_length (bufferevent_get_output (client c))
                  \<longrightarrow> c' = c1) \<and>
               (rc = 0 \<and>
                evbuffer_get_length (bufferevent_get_output (client c)) < get_write_hwm (client c1) \<and>
                relay_evshut c1 AND EV_READ = 0
                  \<longrightarrow> (\<exists>r'. relay c' = Some r' \<and> enabled r' AND EV_READ = EV_READ)) \<and>
               (rc = 0 \<and>
                evbuffer_get_length (bufferevent_get_output (client c)) < get_write_hwm (client c1) \<and>
                relay_evshut c1 AND EV_READ \<noteq> 0
                  \<longrightarrow> (\<exists>r'. relay c' = Some r' \<and> enabled r' = enabled r1))))"
proof -
  have p1: "get_write_hwm r \<le> evbuffer_get_length (bufferevent_get_output r) \<longrightarrow>
            ss_client_readcb env Client c =
              Some (c\<lparr>client := bufferevent_disable (client c) EV_READ\<rparr>) \<and>
            enabled (bufferevent_disable (client c) EV_READ) AND EV_READ = 0"
    by (simp add: ss_client_readcb_connected [OF st rl] bufferevent_disable_read)
  have p2: "evbuffer_get_length (bufferevent_get_output r) < get_write_hwm r \<longrightarrow>
            ss_client_readcb env Client c =
              Some (c\<lparr>sclient := fst (encrypt_buffer env (sclient c) (client c) r),
                      client := bufferevent_enable
                        (fst (snd (encrypt_buffer env (sclient c) (client c) r))) EV_READ,
                      relay := Some (snd (snd (encrypt_buffer env (sclient c) (client c) r)))\<rparr>) \<and>
            enabled (bufferevent_enable
              (fst (snd (encrypt_buffer env (sclient c) (client c) r))) EV_READ) AND EV_READ =
              EV_READ"
    by (simp add: ss_client_readcb_connected [OF st rl] bufferevent_enable_read)
  have p3: "get_write_hwm (client c) \<le> evbuffer_get_length (bufferevent_get_output (client c)) \<longrightarrow>
            ss_relay_readcb env Relay c =
              Some (c\<lparr>relay := Some (bufferevent_disable r EV_READ)\<rparr>) \<and>
            enabled (bufferevent_disable r EV_READ) AND EV_READ = 0"
    by (simp add: ss_relay_readcb_connected [OF st rl] bufferevent_disable_read)
  have p4: "evbuffer_get_length (bufferevent_get_output (client c)) < get_write_hwm (client c) \<longrightarrow>
            ss_relay_readcb env Relay c =
              Some (c\<lparr>sclient := fst (decrypt_buffer env (sclient c) r (client c)),
                      client := snd (snd (decrypt_buffer env (sclient c) r (client c))),
                      relay := Some (bufferevent_enable
                        (fst (snd (decrypt_buffer env (sclient c) r (client c)))) EV_READ)\<rparr>) \<and>
            enabled (bufferevent_enable
              (fst (snd (decrypt_buffer env (sclient c) r (client c)))) EV_READ) AND EV_READ =
              EV_READ"
    by (simp add: ss_relay_readcb_connected [OF st rl] bufferevent_enable_read)
  have p5: "\<forall>rc c1 r1. process_shutdown_on_write env c Client Relay = (rc, c1) \<and>
            (rc = 0 \<longrightarrow> state c1 = ss_connected \<and> relay c1 = Some r1) \<longrightarrow>
            (\<exists>c'. ss_relay_writecb env Relay c = Some c' \<and>
               (rc \<noteq> 0 \<longrightarrow> c' = c1) \<and>
               (rc = 0 \<and> get_write_hwm r1 \<le> evbuffer_get_length (bufferevent_get_output r)
                  \<longrightarrow> c' = c1) \<and>
               (rc = 0 \<and> evbuffer_get_length (bufferevent_get_output r) < get_write_hwm r1 \<and>
                client_evshut c1 AND EV_READ = 0
                  \<longrightarrow> enabled (client c') AND EV_READ = EV_READ) \<and>
               (rc = 0 \<and> evbuffer_get_length (bufferevent_get_output r) < get_write_hwm r1 \<and>
                client_evshut c1 AND EV_READ \<noteq> 0
                  \<longrightarrow> enabled (client c') = enabled (client c1)))"
  proof (intro allI impI)
    fix rc c1 r1
    assume a: "process_shutdown_on_write env c Client Relay = (rc, c1) \<and>
            (rc = 0 \<longrightarrow> state c1 = ss_connected \<and> relay c1 = Some r1)"
    show "\<exists>c'. ss_relay_writecb env Relay c = Some c' \<and>
               (rc \<noteq> 0 \<longrightarrow> c' = c1) \<and>
               (rc = 0 \<and> get_write_hwm r1 \<le> evbuffer_get_length (bufferevent_get_output r)
                  \<longrightarrow> c' = c1) \<and>
               (rc = 0 \<and> evbuffer_get_length (bufferevent_get_output r) < get_write_hwm r1 \<and>
                client_evshut c1 AND EV_READ = 0
                  \<longrightarrow> enabled (client c') AND EV_READ = EV_READ) \<and>
               (rc = 0 \<and> evbuffer_get_length (bufferevent_get_output r) < get_write_hwm r1 \<and>
                client_evshut c1 AND EV_READ \<noteq> 0
                  \<longrightarrow> enabled (client c') = enabled (client c1))"
    proof (cases "rc = 0")
      case False
      with a rl show ?thesis by (simp add: ss_relay_writecb_def Let_def)
    next
      case True
      with a have sh: "process_shutdown_on_write env c Client Relay = (0, c1)"
        and st1: "state c1 = ss_connected" and rl1: "relay c1 = Some r1" by simp_all
      show ?thesis
        using True
        by (simp add: ss_relay_writecb_connected [OF rl sh st1 rl1] bufferevent_enable_read
            encrypt_buffer_enabled)
    qed
  qed
  have p6: "\<forall>rc c1 r1. process_shutdown_on_write env c Relay Client = (rc, c1) \<and>
            (rc = 0 \<longrightarrow> state c1 = ss_connected \<and> relay c1 = Some r1) \<longrightarrow>
            (\<exists>c'. ss_client_writecb env Client c = Some c' \<and>
               (rc \<noteq> 0 \<longrightarrow> c' = c1) \<and>
               (rc = 0 \<and>
                get_write_hwm (client c1) \<le> evbuffer_get_length (bufferevent_get_output (client c))
                  \<longrightarrow> c' = c1) \<and>
               (rc = 0 \<and>
                evbuffer_get_length (bufferevent_get_output (client c)) < get_write_hwm (client c1) \<and>
                relay_evshut c1 AND EV_READ = 0
                  \<longrightarrow> (\<exists>r'. relay c' = Some r' \<and> enabled r' AND EV_READ = EV_READ)) \<and>
               (rc = 0 \<and>
                evbuffer_get_length (bufferevent_get_output (client c)) < get_write_hwm (client c1) \<and>
                relay_evshut c1 AND EV_READ \<noteq> 0
                  \<longrightarrow> (\<exists>r'. relay c' = Some r' \<and> enabled r' = enabled r1)))"
  proof (intro allI impI)
    fix rc c1 r1
    assume a: "process_shutdown_on_write env c Relay Client = (rc, c1) \<and>
            (rc = 0 \<longrightarrow> state c1 = ss_connected \<and> relay c1 = Some r1)"
    show "\<exists>c'. ss_client_writecb env Client c = Some c' \<and>
               (rc \<noteq> 0 \<longrightarrow> c' = c1) \<and>
               (rc = 0 \<and>
                get_write_hwm (client c1) \<le> evbuffer_get_length (bufferevent_get_output (client c))
                  \<longrightarrow> c' = c1) \<and>
               (rc = 0 \<and>
                evbuffer_get_length (bufferevent_get_output (client c)) < get_write_hwm (client c1) \<and>
                relay_evshut c1 AND EV_READ = 0
                  \<longrightarrow> (\<exists>r'. relay c' = Some r' \<and> enabled r' AND EV_READ = EV_READ)) \<and>
               (rc = 0 \<and>
                evbuffer_get_length (bufferevent_get_output (client c)) < get_write_hwm (client c1) \<and>
                relay_evshut c1 AND EV_READ \<noteq> 0
                  \<longrightarrow> (\<exists>r'. relay c' = Some r' \<and> enabled r' = enabled r1))"
    proof (cases "rc = 0")
      case False
      with a rl show ?thesis by (simp add: ss_client_writecb_def Let_def)
    next
      case True
      with a have sh: "process_shutdown_on_write env c Relay Client = (0, c1)"
        and st1: "state c1 = ss_connected" and rl1: "relay c1 = Some r1" by simp_all
      show ?thesis
        using True
        by (simp add: ss_client_writecb_connected [OF rl sh st1 rl1] bufferevent_enable_read
            decrypt_buffer_enabled)
    qed
  qed
  from p1 p2 p3 p4 p5 p6 show ?thesis by blast
qed

theorem backpressure_policy_example:
  "state demo_client_congested = ss_connected \<and>
   ss_client_readcb demo_env Client demo_client_congested =
     Some (demo_client_congested
       \<lparr>client := bufferevent_disable (client demo_client_congested) EV_READ\<rparr>) \<and>
   map_option (\<lambda>c. enabled (client c) AND EV_READ)
     (ss_relay_writecb demo_env Relay demo_client) = Some EV_READ"
  using backpressure_policy
      [where c = demo_client_congested and env = demo_env
        and r = "demo_bev\<lparr>bufferevent_get_output := [[9, 9]], enabled := 6,
                            wm_write_high := 2\<rparr>"]
    backpressure_policy
      [where c = demo_client and env = demo_env and r = "demo_bev\<lparr>enabled := 6\<rparr>"]
  by (simp add: demo_client_congested_def demo_client_def demo_env_def demo_bev_def
      evbuffer_get_length_def get_write_hwm_def)

section \<open>Half-close\<close>



section \<open>The relay-connected event\<close>

text \<open>
  C1, as the specification words it, fails: when \<^verbatim>\<open>redsocks_start_relay\<close> reports failure
  after a successful connect, the handler returns at once with the client dropped; the
  four handlers of this file are not installed and the buffered client bytes are not
  forwarded.
\<close>

theorem relay_connected_start_relay_failure:
  "state demo_client_new = ss_new \<and>
   map_option (red_is_socket_connected_ok demo_env_start_relay_fails) (relay demo_client_new) =
     Some True \<and>
   evbuffer_get_length (bufferevent_get_input (client demo_client_new)) = 5 \<and>
   map_option dropped (ss_relay_connected demo_env_start_relay_fails Relay demo_client_new) =
     Some True \<and>
   map_option (\<lambda>c. (readcb (client c), writecb (client c)))
     (ss_relay_connected demo_env_start_relay_fails Relay demo_client_new) =
     Some (cb_redsocks_relay, cb_redsocks_relay) \<and>
   map_option (\<lambda>c. map_option (\<lambda>r. (readcb r, writecb r)) (relay c))
     (ss_relay_connected demo_env_start_relay_fails Relay demo_client_new) =
     Some (Some (cb_redsocks_relay, cb_redsocks_relay)) \<and>
   map_option (\<lambda>c. bufferevent_get_input (client c))
     (ss_relay_connected demo_env_start_relay_fails Relay demo_client_new) =
     Some [[1, 2, 3], [4, 5]] \<and>
   map_option (\<lambda>c. map_option bufferevent_get_output (relay c))
     (ss_relay_connected demo_env_start_relay_fails Relay demo_client_new) = Some (Some [])"
  by (simp add: demo_client_new_def demo_env_start_relay_fails_def demo_client_def
      demo_env_def demo_bev_def ss_relay_connected_def redsocks_start_relay_def
      redsocks_drop_client_def ss_client_fini_def enc_ctx_free_def
      bufferevent_setcb_def bufferevent_set_timeouts_def evbuffer_get_length_def Let_def)

text \<open>
  C1, amended. For a connection in state NEW whose connect to the relay succeeded,
  \<^verbatim>\<open>ss_relay_connected\<close> marks the relay connected, sets the state to CONNECTED (a
  second firing would fail the assertion on NEW) and clears both timeouts of the relay
  stream. If \<^verbatim>\<open>redsocks_start_relay\<close> then succeeds it installs the four handlers of this
  file on the two streams and, when the client's input queue is non-empty, calls
  \<^verbatim>\<open>ss_relay_writecb\<close> before returning; with the shutdown helper returning 0, the relay's
  output below the mark and reservation and cipher succeeding, that call appends the
  encryption of the first contiguous run to the relay's output and removes the run from
  the client's input. If \<^verbatim>\<open>redsocks_start_relay\<close> fails the client has been dropped, still
  marked connected and with the timeouts cleared, and nothing is installed or forwarded.
\<close>

theorem ss_relay_connected_transition:
  assumes rl: "relay c = Some r" and st: "state c = ss_new"
    and ok: "red_is_socket_connected_ok env r"
    and c5: "c5 = c\<lparr>relay_connected := True, state := ss_connected,
            client := bufferevent_setcb (client c)
              cb_ss_client_readcb cb_ss_client_writecb cb_redsocks_event_error,
            relay := Some (bufferevent_setcb (bufferevent_set_timeouts r None None)
              cb_ss_relay_readcb cb_ss_relay_writecb cb_redsocks_event_error)\<rparr>"
  shows "(start_relay_status env = 0 \<longrightarrow>
            ss_relay_connected env Relay c =
              (if evbuffer_get_length (bufferevent_get_input (client c)) \<noteq> 0
               then ss_relay_writecb env Relay c5 else Some c5)) \<and>
         state c5 = ss_connected \<and> relay_connected c5 \<and>
         ss_relay_connected env Relay c5 = None \<and>
         map_option timeout_read (relay c5) = Some None \<and>
         map_option timeout_write (relay c5) = Some None \<and>
         readcb (client c5) = cb_ss_client_readcb \<and>
         writecb (client c5) = cb_ss_client_writecb \<and>
         map_option readcb (relay c5) = Some cb_ss_relay_readcb \<and>
         map_option writecb (relay c5) = Some cb_ss_relay_writecb \<and>
         (start_relay_status env \<noteq> 0 \<longrightarrow>
            ss_relay_connected env Relay c =
              Some (snd (redsocks_start_relay env
                (c\<lparr>relay_connected := True, state := ss_connected,
                   relay := Some (bufferevent_set_timeouts r None None)\<rparr>))) \<and>
            (\<exists>c'. ss_relay_connected env Relay c = Some c' \<and> dropped c' \<and>
               state c' = ss_connected \<and> relay_connected c' \<and>
               map_option timeout_read (relay c') = Some None \<and>
               map_option timeout_write (relay c') = Some None \<and>
               readcb (client c') = cb_redsocks_relay \<and>
               writecb (client c') = cb_redsocks_relay \<and>
               bufferevent_get_input (client c') = bufferevent_get_input (client c) \<and>
               map_option bufferevent_get_output (relay c') =
                 Some (bufferevent_get_output r))) \<and>
         (start_relay_status env = 0 \<and>
          bufferevent_get_input (client c) = run # rest \<and> run \<noteq> [] \<and>
          process_shutdown_on_write env c5 Client Relay = (0, c5) \<and>
          evbuffer_get_length (bufferevent_get_output r) < get_write_hwm r \<and>
          ss_calc_buffer_size env (e_ctx (sclient c)) (length run) \<noteq> 0 \<and>
          evbuffer_reserve_space env (bufferevent_get_output r)
            (ss_calc_buffer_size env (e_ctx (sclient c)) (length run)) \<and>
          ss_encrypt env (e_ctx (sclient c)) run = (ctx, Some iov) \<longrightarrow>
            (\<exists>c' r'. ss_relay_connected env Relay c = Some c' \<and>
               state c' = ss_connected \<and> relay_connected c' \<and> dropped c' = dropped c \<and>
               relay c' = Some r' \<and>
               evbuffer_contents (bufferevent_get_output r') =
                 evbuffer_contents (bufferevent_get_output r) @ iov \<and>
               evbuffer_contents (bufferevent_get_input (client c')) = evbuffer_contents rest \<and>
               readcb (client c') = cb_ss_client_readcb \<and>
               writecb (client c') = cb_ss_client_writecb \<and>
               timeout_read r' = None \<and> timeout_write r' = None \<and>
               readcb r' = cb_ss_relay_readcb \<and> writecb r' = cb_ss_relay_writecb))"
proof -
  have a1: "start_relay_status env = 0 \<longrightarrow>
            ss_relay_connected env Relay c =
              (if evbuffer_get_length (bufferevent_get_input (client c)) \<noteq> 0
               then ss_relay_writecb env Relay c5 else Some c5)"
    using ss_relay_connected_steady [OF rl st ok] by (simp add: c5)
  have a2: "state c5 = ss_connected \<and> relay_connected c5"
    by (simp add: c5)
  have a3: "ss_relay_connected env Relay c5 = None"
    using a2 by (simp add: ss_relay_connected_asserts_new)
  have a4: "map_option timeout_read (relay c5) = Some None \<and>
         map_option timeout_write (relay c5) = Some None \<and>
         readcb (client c5) = cb_ss_client_readcb \<and>
         writecb (client c5) = cb_ss_client_writecb \<and>
         map_option readcb (relay c5) = Some cb_ss_relay_readcb \<and>
         map_option writecb (relay c5) = Some cb_ss_relay_writecb"
    by (simp add: c5 bufferevent_setcb_def bufferevent_set_timeouts_def)
  have a5: "start_relay_status env \<noteq> 0 \<longrightarrow>
            ss_relay_connected env Relay c =
              Some (snd (redsocks_start_relay env
                (c\<lparr>relay_connected := True, state := ss_connected,
                   relay := Some (bufferevent_set_timeouts r None None)\<rparr>))) \<and>
            (\<exists>c'. ss_relay_connected env Relay c = Some c' \<and> dropped c' \<and>
               state c' = ss_connected \<and> relay_connected c' \<and>
               map_option timeout_read (relay c') = Some None \<and>
               map_option timeout_write (relay c') = Some None \<and>
               readcb (client c') = cb_redsocks_relay \<and>
               writecb (client c') = cb_redsocks_relay \<and>
               bufferevent_get_input (client c') = bufferevent_get_input (client c) \<and>
               map_option bufferevent_get_output (relay c') =
                 Some (bufferevent_get_output r))"
    using rl st ok
    by (simp add: ss_relay_connected_def redsocks_start_relay_def Let_def
        redsocks_drop_client_def ss_client_fini_def enc_ctx_free_def
        bufferevent_setcb_def bufferevent_set_timeouts_def)
  have a6: "start_relay_status env = 0 \<and>
          bufferevent_get_input (client c) = run # rest \<and> run \<noteq> [] \<and>
          process_shutdown_on_write env c5 Client Relay = (0, c5) \<and>
          evbuffer_get_length (bufferevent_get_output r) < get_write_hwm r \<and>
          ss_calc_buffer_size env (e_ctx (sclient c)) (length run) \<noteq> 0 \<and>
          evbuffer_reserve_space env (bufferevent_get_output r)
            (ss_calc_buffer_size env (e_ctx (sclient c)) (length run)) \<and>
          ss_encrypt env (e_ctx (sclient c)) run = (ctx, Some iov) \<longrightarrow>
            (\<exists>c' r'. ss_relay_connected env Relay c = Some c' \<and>
               state c' = ss_connected \<and> relay_connected c' \<and> dropped c' = dropped c \<and>
               relay c' = Some r' \<and>
               evbuffer_contents (bufferevent_get_output r') =
                 evbuffer_contents (bufferevent_get_output r) @ iov \<and>
               evbuffer_contents (bufferevent_get_input (client c')) = evbuffer_contents rest \<and>
               readcb (client c') = cb_ss_client_readcb \<and>
               writecb (client c') = cb_ss_client_writecb \<and>
               timeout_read r' = None \<and> timeout_write r' = None \<and>
               readcb r' = cb_ss_relay_readcb \<and> writecb r' = cb_ss_relay_writecb)"
  proof
    assume h: "start_relay_status env = 0 \<and>
          bufferevent_get_input (client c) = run # rest \<and> run \<noteq> [] \<and>
          process_shutdown_on_write env c5 Client Relay = (0, c5) \<and>
          evbuffer_get_length (bufferevent_get_output r) < get_write_hwm r \<and>
          ss_calc_buffer_size env (e_ctx (sclient c)) (length run) \<noteq> 0 \<and>
          evbuffer_reserve_space env (bufferevent_get_output r)
            (ss_calc_buffer_size env (e_ctx (sclient c)) (length run)) \<and>
          ss_encrypt env (e_ctx (sclient c)) run = (ctx, Some iov)"
    define r5 where "r5 = bufferevent_setcb (bufferevent_set_timeouts r None None)
              cb_ss_relay_readcb cb_ss_relay_writecb cb_redsocks_event_error"
    define cl5 where "cl5 = bufferevent_setcb (client c)
              cb_ss_client_readcb cb_ss_client_writecb cb_redsocks_event_error"
    have rl5: "relay c5 = Some r5" and cli5: "client c5 = cl5" and sc5: "sclient c5 = sclient c"
      and st5: "state c5 = ss_connected"
      by (simp_all add: c5 r5_def cl5_def)
    have inp5: "bufferevent_get_input cl5 = run # rest"
      using h by (simp add: cl5_def bufferevent_setcb_def)
    have ne: "run \<noteq> []" using h by simp
    have out5: "bufferevent_get_output r5 = bufferevent_get_output r"
      and hwm5: "get_write_hwm r5 = get_write_hwm r"
      by (simp_all add: r5_def bufferevent_setcb_def bufferevent_set_timeouts_def
          get_write_hwm_def)
    have sh: "process_shutdown_on_write env c5 Client Relay = (0, c5)" using h by simp
    have em: "encrypt_mem env (sclient c) (Some run) (length run) (bufferevent_get_output r) 0 =
        ((sclient c)\<lparr>e_ctx := ctx\<rparr>, bufferevent_get_output r @ [iov])"
      using h ne encrypt_mem_success [where len = "length run" and decrypt = 0
          and env = env and sc = "sclient c" and buf_out = "bufferevent_get_output r"
          and ctx = ctx and d = run and iov = iov]
      by simp
    have eb: "encrypt_buffer env (sclient c) cl5 r5 =
        ((sclient c)\<lparr>e_ctx := ctx\<rparr>,
         cl5\<lparr>bufferevent_get_input := evbuffer_drain rest 0\<rparr>,
         r5\<lparr>bufferevent_get_output := bufferevent_get_output r @ [iov]\<rparr>)"
      by (simp add: encrypt_buffer_first_run [OF inp5 ne] out5 em)
    have nz: "evbuffer_get_length (bufferevent_get_input (client c)) \<noteq> 0"
      using h ne by (simp add: evbuffer_get_length_def)
    have cs: "evbuffer_get_contiguous_space (bufferevent_get_input cl5) \<noteq> 0"
      using inp5 ne by (simp add: evbuffer_get_contiguous_space_def)
    have lt: "evbuffer_get_length (bufferevent_get_output r5) < get_write_hwm r5"
      using h by (simp add: out5 hwm5)
    have w: "ss_relay_connected env Relay c = ss_relay_writecb env Relay c5"
      using a1 h nz by simp
    show "\<exists>c' r'. ss_relay_connected env Relay c = Some c' \<and>
               state c' = ss_connected \<and> relay_connected c' \<and> dropped c' = dropped c \<and>
               relay c' = Some r' \<and>
               evbuffer_contents (bufferevent_get_output r') =
                 evbuffer_contents (bufferevent_get_output r) @ iov \<and>
               evbuffer_contents (bufferevent_get_input (client c')) = evbuffer_contents rest \<and>
               readcb (client c') = cb_ss_client_readcb \<and>
               writecb (client c') = cb_ss_client_writecb \<and>
               timeout_read r' = None \<and> timeout_write r' = None \<and>
               readcb r' = cb_ss_relay_readcb \<and> writecb r' = cb_ss_relay_writecb"
      using lt cs
      apply (simp add: w ss_relay_writecb_connected [OF rl5 sh st5 rl5] cli5 sc5 eb)
      apply (simp add: c5 cl5_def r5_def bufferevent_enable_def bufferevent_setcb_def
          bufferevent_set_timeouts_def evbuffer_drain_contents)
      apply (simp add: evbuffer_contents_def)
      done
  qed
  from a1 a2 a3 a4 a5 a6 show ?thesis by blast
qed

theorem ss_relay_connected_transition_example:
  "map_option state (ss_relay_connected demo_env Relay demo_client_new) = Some ss_connected \<and>
   map_option relay_connected (ss_relay_connected demo_env Relay demo_client_new) = Some True \<and>
   map_option (\<lambda>c. map_option bufferevent_get_output (relay c))
     (ss_relay_connected demo_env Relay demo_client_new) = Some (Some [[43, 40, 41]]) \<and>
   map_option (\<lambda>c. bufferevent_get_input (client c))
     (ss_relay_connected demo_env Relay demo_client_new) = Some [[4, 5]] \<and>
   map_option (\<lambda>c. (readcb (client c), writecb (client c)))
     (ss_relay_connected demo_env Relay demo_client_new) =
     Some (cb_ss_client_readcb, cb_ss_client_writecb)"
  using ss_relay_connected_transition
      [where c = demo_client_new and env = demo_env
        and r = "demo_bev\<lparr>enabled := 6, writecb := cb_ss_relay_connected,
                            errorcb := cb_redsocks_event_error\<rparr>"
        and run = "[1, 2, 3]" and rest = "[[4, 5]]" and ctx = 3 and iov = "[43, 40, 41]",
        OF _ _ _ refl]
  by (simp add: demo_client_new_def demo_client_def demo_env_def demo_bev_def demo_cipher_def
      ss_relay_connected_def redsocks_start_relay_def ss_relay_writecb_def
      encrypt_buffer_def encrypt_mem_def evbuffer_pullup_def
      evbuffer_get_contiguous_space_def evbuffer_get_length_def evbuffer_commit_space_def
      get_write_hwm_def bufferevent_enable_def bufferevent_setcb_def
      bufferevent_set_timeouts_def EV_READ_def Let_def)

section \<open>Relay connect\<close>

text \<open>
  C4. Once both contexts are initialised and the header is encrypted,
  \<^verbatim>\<open>ss_connect_relay\<close> hands the ciphertext to the connect helper. If the helper returns
  no relay stream the client is dropped and the result is \<^verbatim>\<open>-1\<close>. With a relay stream: a
  reported sent length of zero lets the connection proceed (result 0, not dropped), as
  does a length equal to the ciphertext length; a nonzero length different from the
  ciphertext length drops the client and returns \<^verbatim>\<open>-1\<close>. The drop releases both cipher
  contexts.
\<close>

theorem ss_connect_relay_piggyback:
  assumes ie: "enc_ctx_init env 1 = (0, e)" and id: "enc_ctx_init env 0 = (0, d)"
    and en: "ss_encrypt env e (ss_header_ipv4 (destaddr_sin_addr c) (destaddr_sin_port c)) =
               (e1, Some buff)"
    and tfo: "red_connect_relay_tfo env buff = (r, sz)"
    and c6: "c6 = c\<lparr>sclient := \<lparr>e_ctx = e1, d_ctx = d, e_ctx_init = 1, d_ctx_init = 1\<rparr>,
                     relay := r\<rparr>"
  shows "(r = None \<longrightarrow> ss_connect_relay env c = (- 1, redsocks_drop_client c6)) \<and>
         (r \<noteq> None \<and> sz = 0 \<longrightarrow> ss_connect_relay env c = (0, c6)) \<and>
         (r \<noteq> None \<and> sz \<noteq> 0 \<and> sz \<noteq> length buff \<longrightarrow>
            ss_connect_relay env c = (- 1, redsocks_drop_client c6)) \<and>
         (r \<noteq> None \<and> sz = length buff \<longrightarrow> ss_connect_relay env c = (0, c6)) \<and>
         dropped (redsocks_drop_client c6) \<and>
         dropped c6 = dropped c \<and>
         enc_ctx_free_calls (redsocks_drop_client c6) = enc_ctx_free_calls c @ [E_CTX, D_CTX]"
proof -
  have sc: "(sclient c)\<lparr>e_ctx_init := 1, d_ctx := d, d_ctx_init := 1, e_ctx := e1\<rparr> =
      \<lparr>e_ctx = e1, d_ctx = d, e_ctx_init = 1, d_ctx_init = 1\<rparr>"
    by (cases "sclient c") simp
  have run: "ss_connect_relay env c =
      (if r = None then (- 1, redsocks_drop_client c6)
       else if sz \<noteq> 0 \<and> sz \<noteq> length buff then (- 1, redsocks_drop_client c6)
       else (0, c6))"
    using ie id en tfo by (simp add: ss_connect_relay_def Let_def c6 sc)
  have dr: "dropped (redsocks_drop_client c6) \<and> dropped c6 = dropped c \<and>
      enc_ctx_free_calls (redsocks_drop_client c6) = enc_ctx_free_calls c @ [E_CTX, D_CTX]"
    by (simp add: redsocks_drop_client_def ss_client_fini_def enc_ctx_free_def c6)
  from run dr show ?thesis by simp
qed

theorem ss_connect_relay_piggyback_example:
  "ss_connect_relay demo_env demo_client_fresh =
     (0, demo_client_fresh\<lparr>sclient := \<lparr>e_ctx = 7, d_ctx = 0, e_ctx_init = 1, d_ctx_init = 1\<rparr>,
                            relay := Some demo_bev\<rparr>) \<and>
   fst (ss_connect_relay demo_env_partial_send demo_client_fresh) = - 1 \<and>
   dropped (snd (ss_connect_relay demo_env_partial_send demo_client_fresh))"
  using ss_connect_relay_piggyback
      [where env = demo_env and c = demo_client_fresh and e = 0 and d = 0 and ?e1.0 = 7
        and buff = "map (\<lambda>b. b XOR 0x2A)
          (ss_header_ipv4 (destaddr_sin_addr demo_client_fresh)
             (destaddr_sin_port demo_client_fresh))"
        and r = "Some demo_bev" and sz = 0, OF _ _ _ _ refl]
    ss_connect_relay_piggyback
      [where env = demo_env_partial_send and c = demo_client_fresh and e = 0 and d = 0
        and ?e1.0 = 7
        and buff = "map (\<lambda>b. b XOR 0x2A)
          (ss_header_ipv4 (destaddr_sin_addr demo_client_fresh)
             (destaddr_sin_port demo_client_fresh))"
        and r = "Some demo_bev" and sz = 3, OF _ _ _ _ refl]
  by (simp add: demo_env_def demo_env_partial_send_def demo_cipher_def ss_header_ipv4_def
      demo_client_fresh_def)

end
